theory Spec2Isabelle
  imports Complex_Main "HOL-Library.Multiset"
begin

section \<open>Python values, exceptions and the process state\<close>

text \<open>
  The exceptions that the code of \<^verbatim>\<open>src/ANN.py\<close> raises itself or receives from the
  interpreter. \<open>Exception\<close> carries the message of a \<^verbatim>\<open>raise Exception("...")\<close>;
  \<open>LibraryError\<close> stands for whatever an external library call raises.
\<close>

datatype error =
    Exception string
  | TypeError string
  | ValueError string
  | IndexError string
  | AttributeError string
  | NameError string
  | UnboundLocalError string
  | FileExistsError string
  | LibraryError string

text \<open>
  A Python \<^verbatim>\<open>float\<close>: a finite value, an infinity or NaN. Every ordered comparison
  with NaN is false and \<^verbatim>\<open>nan != x\<close> is true.
\<close>

datatype pyfloat = Finite real | PosInf | NegInf | NaN

fun float_lt :: "pyfloat \<Rightarrow> real \<Rightarrow> bool" where
  "float_lt (Finite x) c = (x < c)"
| "float_lt PosInf c = False"
| "float_lt NegInf c = True"
| "float_lt NaN c = False"

fun float_ge :: "pyfloat \<Rightarrow> real \<Rightarrow> bool" where
  "float_ge (Finite x) c = (x \<ge> c)"
| "float_ge PosInf c = True"
| "float_ge NegInf c = False"
| "float_ge NaN c = False"

fun float_ne :: "pyfloat \<Rightarrow> real \<Rightarrow> bool" where
  "float_ne (Finite x) c = (x \<noteq> c)"
| "float_ne PosInf c = True"
| "float_ne NegInf c = True"
| "float_ne NaN c = True"

text \<open>
  A numpy array: its shape tuple and its entries in row-major order. \<^verbatim>\<open>a.shape[i]\<close>
  raises IndexError when the array has fewer than \<open>i + 1\<close> dimensions.
\<close>

record ndarray =
  shape :: "nat list"
  entries :: "real list"

definition shape_at :: "ndarray \<Rightarrow> nat \<Rightarrow> error + nat" where
  "shape_at a i =
     (if i < length (shape a) then Inr (shape a ! i)
      else Inl (IndexError ''tuple index out of range''))"

text \<open>
  The value stored in \<^verbatim>\<open>_activation\<close>: the string that was assigned, or the
  \<^verbatim>\<open>LeakyReLU(alpha=0.0001)\<close> layer object that the setter builds for
  \<^verbatim>\<open>'leaky_relu'\<close>.
\<close>

datatype activation = ActName string | LeakyReLU_object

type_synonym path = "string list"

text \<open>
  The effects on the world outside the object, in the order in which they happen: the
  file system calls, and the calls into the training framework and the plotting library.
\<close>

datatype event =
    Mkdir path
  | Chdir path
  | WriteText path "string list"
  | TrainTestSplit
  | Fit
  | LoadWeights path
  | SaveFig path
  | SaveTxt path
  | Predict

text \<open>
  The ambient state of the process: the current working directory, the directories that
  exist, and the log of effects so far.
\<close>

record world =
  cwd :: path
  dirs :: "path list"
  log :: "event list"

text \<open>A method call runs on the object and the world, and may leave both changed even
  when it raises.\<close>

record 'o pstate =
  self :: 'o
  os :: world

section \<open>MLP\_classifier: constructor and setters\<close>

record MLP_classifier =
  clf_X :: ndarray
  clf_Y :: ndarray
  clf_activation :: activation
  clf_batch_size :: int
  clf_n_epochs :: int
  clf_n_neurons :: int
  clf_layers :: int
  clf_dropout :: pyfloat
  clf_save_txt :: bool

text \<open>
  \<^verbatim>\<open>MLP_classifier.__init__(self, X, Y, save=False)\<close>. The object is only returned
  when the constructor does not raise.
\<close>

definition MLP_classifier_init ::
  "ndarray \<Rightarrow> ndarray \<Rightarrow> bool \<Rightarrow> world \<Rightarrow> (error + MLP_classifier) \<times> world" where
  "MLP_classifier_init X Y save w =
     (let obj = \<lparr> clf_X = X, clf_Y = Y, clf_activation = ActName ''relu'',
                  clf_batch_size = 64, clf_n_epochs = 1000, clf_n_neurons = 2,
                  clf_layers = 1, clf_dropout = Finite 0, clf_save_txt = save \<rparr>
      in case shape_at (clf_X obj) 0 of
           Inl e \<Rightarrow> (Inl e, w)
         | Inr nx \<Rightarrow>
             (case shape_at (clf_Y obj) 0 of
                Inl e \<Rightarrow> (Inl e, w)
              | Inr ny \<Rightarrow>
                  if nx \<noteq> ny
                  then (Inl (Exception ''The number of observations (Input and Output) does not match: please check again your Input/Output. Exiting...''), w)
                  else (Inr obj, w)))"

text \<open>
  The setters. The decorator \<^verbatim>\<open>@accepts(object, int)\<close> (from the module
  \<^verbatim>\<open>utilities\<close>) admits the values of the declared type, which is the type of the
  argument here. Each setter stores the new value first and checks it afterwards.
\<close>

definition MLP_classifier_set_neurons ::
  "int \<Rightarrow> MLP_classifier pstate \<Rightarrow> (error + unit) \<times> MLP_classifier pstate" where
  "MLP_classifier_set_neurons new_number s =
     (let s1 = s\<lparr>self := (self s)\<lparr>clf_n_neurons := new_number\<rparr>\<rparr>
      in if clf_n_neurons (self s1) \<le> 0
         then (Inl (Exception ''The number of neurons in the hidden layer must be a positive integer. Exiting..''), s1)
         else (Inr (), s1))"

definition MLP_classifier_set_layers ::
  "int \<Rightarrow> MLP_classifier pstate \<Rightarrow> (error + unit) \<times> MLP_classifier pstate" where
  "MLP_classifier_set_layers new_number_layers s =
     (let s1 = s\<lparr>self := (self s)\<lparr>clf_layers := new_number_layers\<rparr>\<rparr>
      in if clf_layers (self s1) \<le> 0
         then (Inl (Exception ''The number hidden layers must be a positive integer. Exiting..''), s1)
         else (Inr (), s1))"

definition MLP_classifier_set_activation ::
  "string \<Rightarrow> MLP_classifier pstate \<Rightarrow> (error + unit) \<times> MLP_classifier pstate" where
  "MLP_classifier_set_activation new_activation s =
     (if new_activation = ''leaky_relu''
      then (Inr (), s\<lparr>self := (self s)\<lparr>clf_activation := LeakyReLU_object\<rparr>\<rparr>)
      else (Inr (), s\<lparr>self := (self s)\<lparr>clf_activation := ActName new_activation\<rparr>\<rparr>))"

definition MLP_classifier_set_batch_size ::
  "int \<Rightarrow> MLP_classifier pstate \<Rightarrow> (error + unit) \<times> MLP_classifier pstate" where
  "MLP_classifier_set_batch_size new_batchsize s =
     (let s1 = s\<lparr>self := (self s)\<lparr>clf_batch_size := new_batchsize\<rparr>\<rparr>
      in if clf_batch_size (self s1) \<le> 0
         then (Inl (Exception ''The batch size must be a positive integer. Exiting..''), s1)
         else (Inr (), s1))"

definition MLP_classifier_set_n_epochs ::
  "int \<Rightarrow> MLP_classifier pstate \<Rightarrow> (error + unit) \<times> MLP_classifier pstate" where
  "MLP_classifier_set_n_epochs new_epochs s =
     (let s1 = s\<lparr>self := (self s)\<lparr>clf_n_epochs := new_epochs\<rparr>\<rparr>
      in if clf_n_epochs (self s1) \<le> 0
         then (Inl (Exception ''The number of epochs must be a positive integer. Exiting..''), s1)
         else (Inr (), s1))"

definition MLP_classifier_set_dropout ::
  "pyfloat \<Rightarrow> MLP_classifier pstate \<Rightarrow> (error + unit) \<times> MLP_classifier pstate" where
  "MLP_classifier_set_dropout new_value s =
     (let s1 = s\<lparr>self := (self s)\<lparr>clf_dropout := new_value\<rparr>\<rparr>
      in if float_lt (clf_dropout (self s1)) 0
         then (Inl (Exception ''The dropout percentage must be a positive integer. Exiting..''), s1)
         else if float_ge (clf_dropout (self s1)) 1
         then (Inl (Exception ''The dropout percentage must be lower than 1. Exiting..''), s1)
         else (Inr (), s1))"

section \<open>Autoencoder: constructor and setters\<close>

text \<open>
  \<^verbatim>\<open>Autoencoder.__init__(self, X, save=False)\<close> assigns four attributes besides
  \<^verbatim>\<open>X\<close>; the argument \<^verbatim>\<open>save\<close> is not stored, so the object has no attribute
  \<^verbatim>\<open>save_txt\<close>.
\<close>

record Autoencoder =
  ae_X :: ndarray
  ae_n_neurons :: int
  ae_activation :: activation
  ae_batch_size :: int
  ae_n_epochs :: int

definition Autoencoder_init :: "ndarray \<Rightarrow> bool \<Rightarrow> world \<Rightarrow> (error + Autoencoder) \<times> world" where
  "Autoencoder_init X save w =
     (Inr \<lparr> ae_X = X, ae_n_neurons = 1, ae_activation = ActName ''relu'',
            ae_batch_size = 64, ae_n_epochs = 1000 \<rparr>, w)"

definition Autoencoder_set_neurons ::
  "int \<Rightarrow> Autoencoder pstate \<Rightarrow> (error + unit) \<times> Autoencoder pstate" where
  "Autoencoder_set_neurons new_number s =
     (let s1 = s\<lparr>self := (self s)\<lparr>ae_n_neurons := new_number\<rparr>\<rparr>
      in if ae_n_neurons (self s1) \<le> 0
         then (Inl (Exception ''The number of neurons in the hidden layer must be a positive integer. Exiting..''), s1)
         else (case shape_at (ae_X (self s1)) 1 of
                 Inl e \<Rightarrow> (Inl e, s1)
               | Inr p \<Rightarrow>
                   if ae_n_neurons (self s1) \<ge> int p
                   then (Inl (Exception ''The reduced dimensionality cannot be larger than the original number of variables. Exiting..''), s1)
                   else (Inr (), s1)))"

definition Autoencoder_set_activation ::
  "string \<Rightarrow> Autoencoder pstate \<Rightarrow> (error + unit) \<times> Autoencoder pstate" where
  "Autoencoder_set_activation new_activation s =
     (if new_activation = ''leaky_relu''
      then (Inr (), s\<lparr>self := (self s)\<lparr>ae_activation := LeakyReLU_object\<rparr>\<rparr>)
      else (Inr (), s\<lparr>self := (self s)\<lparr>ae_activation := ActName new_activation\<rparr>\<rparr>))"

definition Autoencoder_set_batch_size ::
  "int \<Rightarrow> Autoencoder pstate \<Rightarrow> (error + unit) \<times> Autoencoder pstate" where
  "Autoencoder_set_batch_size new_batchsize s =
     (let s1 = s\<lparr>self := (self s)\<lparr>ae_batch_size := new_batchsize\<rparr>\<rparr>
      in if ae_batch_size (self s1) \<le> 0
         then (Inl (Exception ''The batch size must be a positive integer. Exiting..''), s1)
         else (Inr (), s1))"

definition Autoencoder_set_n_epochs ::
  "int \<Rightarrow> Autoencoder pstate \<Rightarrow> (error + unit) \<times> Autoencoder pstate" where
  "Autoencoder_set_n_epochs new_epochs s =
     (let s1 = s\<lparr>self := (self s)\<lparr>ae_n_epochs := new_epochs\<rparr>\<rparr>
      in if ae_n_epochs (self s1) \<le> 0
         then (Inl (Exception ''The number of epochs must be a positive integer. Exiting..''), s1)
         else (Inr (), s1))"

text \<open>
  The class declares the properties \<^verbatim>\<open>neurons\<close>, \<^verbatim>\<open>activation\<close>,
  \<^verbatim>\<open>batch_size\<close> and \<^verbatim>\<open>n_epochs\<close> (lines 283 to 336) and no property \<^verbatim>\<open>layers\<close>
  or \<^verbatim>\<open>dropout\<close>. An assignment \<^verbatim>\<open>ae.layers = v\<close> or \<^verbatim>\<open>ae.dropout = v\<close> is
  therefore Python's plain attribute assignment: it runs no check, raises nothing, and
  creates an attribute that no method of the class reads, so the fields that the class uses
  are as before.
\<close>

definition Autoencoder_assign_layers ::
  "int \<Rightarrow> Autoencoder pstate \<Rightarrow> (error + unit) \<times> Autoencoder pstate" where
  "Autoencoder_assign_layers new_number_layers s = (Inr (), s)"

definition Autoencoder_assign_dropout ::
  "pyfloat \<Rightarrow> Autoencoder pstate \<Rightarrow> (error + unit) \<times> Autoencoder pstate" where
  "Autoencoder_assign_dropout new_value s = (Inr (), s)"

section \<open>MLP\_regressor: constructor and setters\<close>

record MLP_regressor =
  reg_X :: ndarray
  reg_Y :: ndarray
  reg_n_neurons :: int
  reg_layers :: int
  reg_activation :: activation
  reg_batch_size :: int
  reg_n_epochs :: int
  reg_dropout :: pyfloat
  reg_save_txt :: bool

definition MLP_regressor_init ::
  "ndarray \<Rightarrow> ndarray \<Rightarrow> bool \<Rightarrow> world \<Rightarrow> (error + MLP_regressor) \<times> world" where
  "MLP_regressor_init X Y save w =
     (let obj = \<lparr> reg_X = X, reg_Y = Y, reg_n_neurons = 2, reg_layers = 1,
                  reg_activation = ActName ''relu'', reg_batch_size = 64,
                  reg_n_epochs = 1000, reg_dropout = Finite 0, reg_save_txt = save \<rparr>
      in case shape_at (reg_X obj) 0 of
           Inl e \<Rightarrow> (Inl e, w)
         | Inr nx \<Rightarrow>
             (case shape_at (reg_Y obj) 0 of
                Inl e \<Rightarrow> (Inl e, w)
              | Inr ny \<Rightarrow>
                  if nx \<noteq> ny
                  then (Inl (Exception ''The number of observations (Input and Output) does not match: please check again your Input/Output. Exiting...''), w)
                  else (Inr obj, w)))"

definition MLP_regressor_set_neurons ::
  "int \<Rightarrow> MLP_regressor pstate \<Rightarrow> (error + unit) \<times> MLP_regressor pstate" where
  "MLP_regressor_set_neurons new_number s =
     (let s1 = s\<lparr>self := (self s)\<lparr>reg_n_neurons := new_number\<rparr>\<rparr>
      in if reg_n_neurons (self s1) \<le> 0
         then (Inl (Exception ''The number of neurons in the hidden layer must be a positive integer. Exiting..''), s1)
         else (Inr (), s1))"

definition MLP_regressor_set_layers ::
  "int \<Rightarrow> MLP_regressor pstate \<Rightarrow> (error + unit) \<times> MLP_regressor pstate" where
  "MLP_regressor_set_layers new_number_layers s =
     (let s1 = s\<lparr>self := (self s)\<lparr>reg_layers := new_number_layers\<rparr>\<rparr>
      in if reg_layers (self s1) \<le> 0
         then (Inl (Exception ''The number hidden layers must be a positive integer. Exiting..''), s1)
         else (Inr (), s1))"

definition MLP_regressor_set_activation ::
  "string \<Rightarrow> MLP_regressor pstate \<Rightarrow> (error + unit) \<times> MLP_regressor pstate" where
  "MLP_regressor_set_activation new_activation s =
     (if new_activation = ''leaky_relu''
      then (Inr (), s\<lparr>self := (self s)\<lparr>reg_activation := LeakyReLU_object\<rparr>\<rparr>)
      else (Inr (), s\<lparr>self := (self s)\<lparr>reg_activation := ActName new_activation\<rparr>\<rparr>))"

definition MLP_regressor_set_batch_size ::
  "int \<Rightarrow> MLP_regressor pstate \<Rightarrow> (error + unit) \<times> MLP_regressor pstate" where
  "MLP_regressor_set_batch_size new_batchsize s =
     (let s1 = s\<lparr>self := (self s)\<lparr>reg_batch_size := new_batchsize\<rparr>\<rparr>
      in if reg_batch_size (self s1) \<le> 0
         then (Inl (Exception ''The batch size must be a positive integer. Exiting..''), s1)
         else (Inr (), s1))"

definition MLP_regressor_set_n_epochs ::
  "int \<Rightarrow> MLP_regressor pstate \<Rightarrow> (error + unit) \<times> MLP_regressor pstate" where
  "MLP_regressor_set_n_epochs new_epochs s =
     (let s1 = s\<lparr>self := (self s)\<lparr>reg_n_epochs := new_epochs\<rparr>\<rparr>
      in if reg_n_epochs (self s1) \<le> 0
         then (Inl (Exception ''The number of epochs must be a positive integer. Exiting..''), s1)
         else (Inr (), s1))"

definition MLP_regressor_set_dropout ::
  "pyfloat \<Rightarrow> MLP_regressor pstate \<Rightarrow> (error + unit) \<times> MLP_regressor pstate" where
  "MLP_regressor_set_dropout new_value s =
     (let s1 = s\<lparr>self := (self s)\<lparr>reg_dropout := new_value\<rparr>\<rparr>
      in if float_lt (reg_dropout (self s1)) 0
         then (Inl (Exception ''The dropout percentage must be a positive integer. Exiting..''), s1)
         else if float_ge (reg_dropout (self s1)) 1
         then (Inl (Exception ''The dropout percentage must be lower than 1. Exiting..''), s1)
         else (Inr (), s1))"

section \<open>What the three recipes share with their environment\<close>

text \<open>
  \<^verbatim>\<open>datetime.datetime.now()\<close> and \<^verbatim>\<open>strftime("%Y_%m_%d-%H%M")\<close>: the year on four
  digits, month, day, hour and minute on two, zero padded.
\<close>

record datetime =
  year :: nat
  month :: nat
  day :: nat
  hour :: nat
  minute :: nat

definition digit_char :: "nat \<Rightarrow> char" where
  "digit_char d =
     (if d = 0 then CHR ''0'' else if d = 1 then CHR ''1'' else if d = 2 then CHR ''2''
      else if d = 3 then CHR ''3'' else if d = 4 then CHR ''4'' else if d = 5 then CHR ''5''
      else if d = 6 then CHR ''6'' else if d = 7 then CHR ''7'' else if d = 8 then CHR ''8''
      else CHR ''9'')"

fun str_nat :: "nat \<Rightarrow> string" where
  "str_nat n = (if n < 10 then [digit_char n] else str_nat (n div 10) @ [digit_char (n mod 10)])"

declare str_nat.simps [simp del]

text \<open>\<^verbatim>\<open>"{}".format(i)\<close> for a Python \<^verbatim>\<open>int\<close>.\<close>

definition str_int :: "int \<Rightarrow> string" where
  "str_int i = (if i < 0 then CHR ''-'' # str_nat (nat (- i)) else str_nat (nat i))"

definition zfill :: "nat \<Rightarrow> string \<Rightarrow> string" where
  "zfill width s = replicate (width - length s) (CHR ''0'') @ s"

definition strftime :: "datetime \<Rightarrow> string" where
  "strftime t =
     zfill 4 (str_nat (year t)) @ ''_'' @ zfill 2 (str_nat (month t)) @ ''_'' @
     zfill 2 (str_nat (day t)) @ ''-'' @ zfill 2 (str_nat (hour t)) @ zfill 2 (str_nat (minute t))"

text \<open>A layer handed to the training framework: \<^verbatim>\<open>Dense(units, activation=...,
  kernel_initializer=..., input_dim=...)\<close> or \<^verbatim>\<open>Dropout(rate)\<close>.\<close>

datatype layer =
    Dense int activation "string option" "nat option"
  | Dropout pyfloat

text \<open>The tuple that \<^verbatim>\<open>set_hard_parameters()\<close> returns.\<close>

record hard_parameters =
  hp_activation_output :: string
  hp_path :: path
  hp_monitor_early_stop :: string
  hp_optimizer :: string
  hp_patience :: nat
  hp_loss :: string
  hp_metrics :: string

text \<open>
  The external libraries, as the code calls them. Their results are not determined by this
  repository, so they are parameters: the clock, scikit-learn's \<^verbatim>\<open>train_test_split\<close>,
  the framework's \<^verbatim>\<open>summary/compile/fit\<close> (which yields a trained model \<open>'m\<close>),
  \<^verbatim>\<open>load_weights\<close>, \<^verbatim>\<open>predict\<close>, \<^verbatim>\<open>layers[i].get_weights()\<close>, the plotting
  of the history under the given keys, and \<^verbatim>\<open>np.savetxt\<close>. Each may raise.
\<close>

record 'm framework =
  now :: datetime
  train_test_split :: "ndarray \<Rightarrow> ndarray \<Rightarrow> error + (ndarray \<times> ndarray \<times> ndarray \<times> ndarray)"
  keras_fit :: "layer list \<Rightarrow> hard_parameters \<Rightarrow> ndarray \<times> ndarray \<Rightarrow> ndarray \<times> ndarray
                  \<Rightarrow> int \<Rightarrow> int \<Rightarrow> error + 'm"
  plot_history :: "'m \<Rightarrow> string list \<Rightarrow> error + unit"
  load_weights :: "'m \<Rightarrow> path \<Rightarrow> error + 'm"
  predict :: "'m \<Rightarrow> ndarray \<Rightarrow> error + ndarray"
  encoder_predict :: "'m \<Rightarrow> ndarray \<Rightarrow> error + ndarray"
  get_weights :: "'m \<Rightarrow> nat \<Rightarrow> ndarray list"
  savetxt :: "path \<Rightarrow> ndarray \<Rightarrow> error + unit"

text \<open>Sequencing of calls that may raise: the first exception ends the run, and the
  state reached so far stays.\<close>

type_synonym ('s, 'a) prog = "'s \<Rightarrow> (error + 'a) \<times> 's"

definition bind_prog :: "('s, 'a) prog \<Rightarrow> ('a \<Rightarrow> ('s, 'b) prog) \<Rightarrow> ('s, 'b) prog" where
  "bind_prog m f s = (case m s of (Inl e, s') \<Rightarrow> (Inl e, s') | (Inr x, s') \<Rightarrow> f x s')"

definition pure_call :: "error + 'a \<Rightarrow> ('s, 'a) prog" where
  "pure_call r s = (r, s)"

definition emit :: "event \<Rightarrow> world \<Rightarrow> world" where
  "emit e w = w\<lparr>log := log w @ [e]\<rparr>"

text \<open>An external call that leaves the event \<open>e\<close> in the log when it succeeds.\<close>

definition ext_call :: "event \<Rightarrow> error + 'a \<Rightarrow> (world, 'a) prog" where
  "ext_call e r w = (case r of Inl err \<Rightarrow> (Inl err, w) | Inr x \<Rightarrow> (Inr x, emit e w))"

text \<open>The call of the framework's training. The event is logged when the call is made,
  whether it returns or raises: from then on training has begun.\<close>

definition begun_call :: "event \<Rightarrow> error + 'a \<Rightarrow> (world, 'a) prog" where
  "begun_call e r w = (r, emit e w)"

definition in_world :: "(world, 'a) prog \<Rightarrow> ('o pstate, 'a) prog" where
  "in_world m s = (case m (os s) of (r, w') \<Rightarrow> (r, s\<lparr>os := w'\<rparr>))"

text \<open>\<^verbatim>\<open>os.mkdir(name)\<close> followed by \<^verbatim>\<open>os.chdir(name)\<close>, the body of every
  \<^verbatim>\<open>set_environment()\<close> after the name is built. \<^verbatim>\<open>os.mkdir\<close> raises
  FileExistsError when the directory is there already.\<close>

definition os_mkdir :: "string \<Rightarrow> (world, unit) prog" where
  "os_mkdir name w =
     (if cwd w @ [name] \<in> set (dirs w) then (Inl (FileExistsError name), w)
      else (Inr (), emit (Mkdir (cwd w @ [name])) (w\<lparr>dirs := dirs w @ [cwd w @ [name]]\<rparr>)))"

definition os_chdir :: "string \<Rightarrow> (world, unit) prog" where
  "os_chdir name w =
     (if cwd w @ [name] \<in> set (dirs w)
      then (Inr (), emit (Chdir (cwd w @ [name])) (w\<lparr>cwd := cwd w @ [name]\<rparr>))
      else (Inl (LibraryError ''FileNotFoundError''), w))"

text \<open>The string concatenation \<^verbatim>\<open>"..." + activation_specification + ". \n"\<close> of
  \<^verbatim>\<open>write_recap_text\<close>: a TypeError unless the activation is a string.\<close>

definition activation_line :: "activation \<Rightarrow> error + string" where
  "activation_line a =
     (case a of
        ActName n \<Rightarrow> Inr (''The activation function which was used was: '' @ n @ ''. '')
      | LeakyReLU_object \<Rightarrow> Inl (TypeError ''can only concatenate str to str''))"

definition get_self :: "('o pstate, 'o) prog" where
  "get_self s = (Inr (self s), s)"

definition get_cwd :: "('o pstate, path) prog" where
  "get_cwd s = (Inr (cwd (os s)), s)"

section \<open>MLP\_classifier.fit\_network\<close>

definition MLP_classifier_set_hard_parameters :: "path \<Rightarrow> hard_parameters" where
  "MLP_classifier_set_hard_parameters getcwd =
     \<lparr> hp_activation_output = ''softmax'', hp_path = getcwd,
       hp_monitor_early_stop = ''val_loss'', hp_optimizer = ''adam'', hp_patience = 5,
       hp_loss = ''categorical_crossentropy'', hp_metrics = ''accuracy'' \<rparr>"

text \<open>
  The builtin \<^verbatim>\<open>max\<close> on a numpy array iterates over its first axis: a TypeError on
  an array without dimensions, a ValueError on an empty one. On a one-dimensional array it
  yields a numpy scalar. On an array of more dimensions the items are sub-arrays, which are
  compared through their truth value: that is an error unless each has one element (or
  there is a single item, which is returned without a comparison), and the maximum is a
  sub-array.
\<close>

datatype max_result = NumpyScalar real | SubArray

definition py_max :: "ndarray \<Rightarrow> error + max_result" where
  "py_max a =
     (case shape a of
        [] \<Rightarrow> Inl (TypeError ''iteration over a 0-d array'')
      | n # rest \<Rightarrow>
          if n = 0 then Inl (ValueError ''max() arg is an empty sequence'')
          else if rest = []
          then (case entries a of
                  [] \<Rightarrow> Inl (ValueError ''max() arg is an empty sequence'')
                | x # xs \<Rightarrow> Inr (NumpyScalar (fold max xs x)))
          else if n = 1 \<or> prod_list rest = 1 then Inr SubArray
          else Inl (ValueError ''The truth value of an array with more than one element is ambiguous''))"

text \<open>\<^verbatim>\<open>max(idx) + 1\<close>.\<close>

definition plus_one :: "max_result \<Rightarrow> max_result" where
  "plus_one m = (case m of NumpyScalar v \<Rightarrow> NumpyScalar (v + 1) | SubArray \<Rightarrow> SubArray)"

text \<open>
  \<^verbatim>\<open>np.zeros(n_observations, k)\<close> passes \<^verbatim>\<open>k\<close> in the position of the data type.
  numpy refuses an array there with a TypeError; from a numpy scalar it takes the scalar's
  type, and the result is a one-dimensional array of zeros.
\<close>

definition np_zeros_with_dtype :: "nat \<Rightarrow> max_result \<Rightarrow> error + ndarray" where
  "np_zeros_with_dtype n k =
     (case k of
        SubArray \<Rightarrow> Inl (TypeError ''Cannot interpret the argument as a data type'')
      | NumpyScalar v \<Rightarrow> Inr \<lparr> shape = [n], entries = replicate n 0 \<rparr>)"

text \<open>
  \<^verbatim>\<open>idx_to_labels(idx)\<close>. The loops are reached with a one-dimensional \<^verbatim>\<open>idx\<close> only,
  where \<^verbatim>\<open>labels\<close> is one-dimensional too: \<^verbatim>\<open>range(0, k)\<close> raises TypeError for a
  \<^verbatim>\<open>k\<close> that is not of an integer type, and the first assignment
  \<^verbatim>\<open>labels[ii,jj] = 1\<close> raises IndexError. The array model carries no element type: an
  array whose entries are all whole numbers is taken to be of an integer type.
\<close>

definition MLP_classifier_idx_to_labels :: "ndarray \<Rightarrow> error + ndarray" where
  "MLP_classifier_idx_to_labels idx =
     (case py_max idx of
        Inl e \<Rightarrow> Inl e
      | Inr m \<Rightarrow>
          (let k = plus_one m
           in case shape_at idx 0 of
                Inl e \<Rightarrow> Inl e
              | Inr n_observations \<Rightarrow>
                  (case np_zeros_with_dtype n_observations k of
                     Inl e \<Rightarrow> Inl e
                   | Inr labels \<Rightarrow>
                       (case k of
                          SubArray \<Rightarrow> Inr labels
                        | NumpyScalar kv \<Rightarrow>
                            if \<not> list_all (\<lambda>x. x = of_int \<lfloor>x\<rfloor>) (entries idx)
                            then Inl (TypeError ''float object cannot be interpreted as an integer'')
                            else if list_ex (\<lambda>x. 0 \<le> x \<and> x < kv)
                                      (take n_observations (entries idx))
                            then Inl (IndexError ''too many indices for array'')
                            else Inr labels))))"

definition MLP_classifier_set_environment :: "datetime \<Rightarrow> (world, unit) prog" where
  "MLP_classifier_set_environment t =
     (let newDirName = ''Train MLP class - '' @ strftime t
      in bind_prog (os_mkdir newDirName) (\<lambda>_. os_chdir newDirName))"

text \<open>
  \<^verbatim>\<open>write_recap_text\<close> opens \<^verbatim>\<open>recap_training.txt\<close> in the working directory and
  writes one line per hyperparameter. When the last line cannot be built the file is left
  with the lines written before.
\<close>

definition MLP_classifier_write_recap_text ::
  "int \<Rightarrow> int \<Rightarrow> int \<Rightarrow> activation \<Rightarrow> (world, unit) prog" where
  "MLP_classifier_write_recap_text neuro_number lay_number number_batches activation_specification w =
     (let text_file = cwd w @ [''recap_training.txt''];
          written =
            [''The number of neurons in the implemented architecture is equal to: '' @ str_int neuro_number @ '' '',
             ''The number of hidden layers in the implemented architecture is equal to: '' @ str_int lay_number @ '' '',
             ''The batch size is equal to: '' @ str_int number_batches @ '' '']
      in case activation_line activation_specification of
           Inl e \<Rightarrow> (Inl e, emit (WriteText text_file written) w)
         | Inr l \<Rightarrow> (Inr (), emit (WriteText text_file (written @ [l])) w))"

text \<open>Lines 202 to 207: the check of the shape of \<^verbatim>\<open>Y\<close>, the new directory and the
  recap file.\<close>

definition MLP_classifier_prepare :: "datetime \<Rightarrow> (MLP_classifier pstate, unit) prog" where
  "MLP_classifier_prepare t =
     bind_prog (\<lambda>s. (shape_at (clf_Y (self s)) 1, s)) (\<lambda>k.
     bind_prog (\<lambda>s. if k = 1
                     then (case MLP_classifier_idx_to_labels (clf_Y (self s)) of
                             Inl e \<Rightarrow> (Inl e, s)
                           | Inr labels \<Rightarrow> (Inr (), s\<lparr>self := (self s)\<lparr>clf_Y := labels\<rparr>\<rparr>))
                     else (Inr (), s)) (\<lambda>_.
     bind_prog (in_world (MLP_classifier_set_environment t)) (\<lambda>_.
     bind_prog get_self (\<lambda>obj.
       in_world (MLP_classifier_write_recap_text (clf_n_neurons obj) (clf_layers obj)
                   (clf_batch_size obj) (clf_activation obj))))))"

text \<open>Lines 222 to 226: the loop that adds the remaining hidden layers.\<close>

function MLP_classifier_hidden_loop :: "MLP_classifier \<Rightarrow> int \<Rightarrow> layer list \<Rightarrow> layer list" where
  "MLP_classifier_hidden_loop obj counter classifier =
     (if counter < clf_layers obj
      then MLP_classifier_hidden_loop obj (counter + 1)
             (classifier @ [Dense (clf_n_neurons obj) (clf_activation obj) None None] @
                (if float_ne (clf_dropout obj) 0 then [Dropout (clf_dropout obj)] else []))
      else classifier)"
  by pat_completeness auto
termination
  by (relation "measure (\<lambda>(obj, counter, classifier). nat (clf_layers obj - counter))") auto

declare MLP_classifier_hidden_loop.simps [simp del]

text \<open>Lines 214 to 227: the layers added to \<^verbatim>\<open>Sequential()\<close>, in order.\<close>

definition MLP_classifier_build ::
  "MLP_classifier \<Rightarrow> nat \<Rightarrow> nat \<Rightarrow> hard_parameters \<Rightarrow> layer list" where
  "MLP_classifier_build obj input_dimension number_of_classes hp =
     (let classifier0 =
            [Dense (clf_n_neurons obj) (clf_activation obj) (Some ''random_normal'') (Some input_dimension)] @
            (if float_ne (clf_dropout obj) 0 then [Dropout (clf_dropout obj)] else []);
          classifier1 = MLP_classifier_hidden_loop obj 1 classifier0
      in classifier1 @
           [Dense (int number_of_classes) (ActName (hp_activation_output hp)) (Some ''random_normal'') None])"

text \<open>Lines 256 to 268: the dump of weights and biases, one pair of files per hidden
  layer. \<^verbatim>\<open>classifier.layers[i]\<close> and \<^verbatim>\<open>get_weights()[j]\<close> raise IndexError out
  of range.\<close>

definition py_index :: "'a list \<Rightarrow> nat \<Rightarrow> error + 'a" where
  "py_index xs i = (if i < length xs then Inr (xs ! i) else Inl (IndexError ''list index out of range''))"

function MLP_classifier_save_loop ::
  "'m framework \<Rightarrow> 'm \<Rightarrow> layer list \<Rightarrow> int \<Rightarrow> int \<Rightarrow> (world, unit) prog" where
  "MLP_classifier_save_loop fw m classifier n_layers counter_saver =
     (if counter_saver < n_layers
      then bind_prog (pure_call (py_index classifier (nat counter_saver))) (\<lambda>_.
           bind_prog (pure_call (py_index (get_weights fw m (nat counter_saver)) 0)) (\<lambda>layer_weights.
           bind_prog (pure_call (py_index (get_weights fw m (nat counter_saver)) 1)) (\<lambda>layer_biases.
           bind_prog (\<lambda>w. ext_call (SaveTxt (cwd w @ [''Weights_HL'' @ str_int counter_saver @ ''.txt'']))
                             (savetxt fw (cwd w @ [''Weights_HL'' @ str_int counter_saver @ ''.txt'']) layer_weights) w) (\<lambda>_.
           bind_prog (\<lambda>w. ext_call (SaveTxt (cwd w @ [''Biases_HL'' @ str_int counter_saver @ ''.txt'']))
                             (savetxt fw (cwd w @ [''Biases_HL'' @ str_int counter_saver @ ''.txt'']) layer_biases) w) (\<lambda>_.
             MLP_classifier_save_loop fw m classifier n_layers (counter_saver + 1))))))
      else pure_call (Inr ()))"
  by pat_completeness auto
termination
  by (relation "measure (\<lambda>(fw, m, classifier, n_layers, counter_saver). nat (n_layers - counter_saver))") auto

declare MLP_classifier_save_loop.simps [simp del]

text \<open>Lines 209 to 271: split, build, train, plot, optionally dump, and predict on the
  whole of \<^verbatim>\<open>X\<close>.\<close>

definition MLP_classifier_train_and_predict ::
  "'m framework \<Rightarrow> (MLP_classifier pstate, ndarray) prog" where
  "MLP_classifier_train_and_predict fw =
     bind_prog get_self (\<lambda>obj.
     bind_prog (in_world (ext_call TrainTestSplit (train_test_split fw (clf_X obj) (clf_Y obj))))
       (\<lambda>(X_train, X_test, y_train, y_test).
     bind_prog (pure_call (shape_at (clf_X obj) 1)) (\<lambda>input_dimension.
     bind_prog (pure_call (shape_at (clf_Y obj) 1)) (\<lambda>number_of_classes.
     bind_prog get_cwd (\<lambda>getcwd.
       (let hp = MLP_classifier_set_hard_parameters getcwd;
            classifier = MLP_classifier_build obj input_dimension number_of_classes hp
        in bind_prog (in_world (begun_call Fit
                        (keras_fit fw classifier hp (X_train, y_train) (X_test, y_test)
                           (clf_batch_size obj) (clf_n_epochs obj)))) (\<lambda>m.
           bind_prog (in_world (\<lambda>w. ext_call (SaveFig (cwd w @ [''accuracy_history.eps'']))
                                  (plot_history fw m [''acc'', ''val_acc'']) w)) (\<lambda>_.
           bind_prog (in_world (\<lambda>w. ext_call (SaveFig (cwd w @ [''loss_history.eps'']))
                                  (plot_history fw m [''loss'', ''val_loss'']) w)) (\<lambda>_.
           bind_prog (if clf_save_txt obj
                      then in_world (MLP_classifier_save_loop fw m classifier (clf_layers obj) 0)
                      else pure_call (Inr ())) (\<lambda>_.
             in_world (ext_call Predict (predict fw m (clf_X obj)))))))))))))"

definition MLP_classifier_fit_network ::
  "'m framework \<Rightarrow> (MLP_classifier pstate, ndarray) prog" where
  "MLP_classifier_fit_network fw =
     bind_prog (MLP_classifier_prepare (now fw)) (\<lambda>_. MLP_classifier_train_and_predict fw)"

section \<open>Autoencoder.fit\<close>

definition Autoencoder_set_hard_parameters :: "path \<Rightarrow> hard_parameters" where
  "Autoencoder_set_hard_parameters getcwd =
     \<lparr> hp_activation_output = ''linear'', hp_path = getcwd,
       hp_monitor_early_stop = ''val_loss'', hp_optimizer = ''adam'', hp_patience = 5,
       hp_loss = ''mse'', hp_metrics = ''accuracy'' \<rparr>"

definition Autoencoder_set_environment :: "datetime \<Rightarrow> (world, unit) prog" where
  "Autoencoder_set_environment t =
     (let newDirName = ''Train Autoencoder - '' @ strftime t
      in bind_prog (os_mkdir newDirName) (\<lambda>_. os_chdir newDirName))"

definition Autoencoder_write_recap_text :: "int \<Rightarrow> int \<Rightarrow> activation \<Rightarrow> (world, unit) prog" where
  "Autoencoder_write_recap_text neuro_number number_batches activation_specification w =
     (let text_file = cwd w @ [''recap_training.txt''];
          written =
            [''The number of neurons in the implemented architecture is equal to: '' @ str_int neuro_number @ '' '',
             ''The batch size is equal to: '' @ str_int number_batches @ '' '']
      in case activation_line activation_specification of
           Inl e \<Rightarrow> (Inl e, emit (WriteText text_file written) w)
         | Inr l \<Rightarrow> (Inr (), emit (WriteText text_file (written @ [l])) w))"

text \<open>Lines 391 and 392.\<close>

definition Autoencoder_prepare :: "datetime \<Rightarrow> (Autoencoder pstate, unit) prog" where
  "Autoencoder_prepare t =
     bind_prog (in_world (Autoencoder_set_environment t)) (\<lambda>_.
     bind_prog get_self (\<lambda>obj.
       in_world (Autoencoder_write_recap_text (ae_n_neurons obj) (ae_batch_size obj)
                   (ae_activation obj))))"

text \<open>The read of \<^verbatim>\<open>self.save_txt\<close> on line 426: the attribute is assigned nowhere
  in the class.\<close>

definition Autoencoder_save_txt :: "Autoencoder \<Rightarrow> error + bool" where
  "Autoencoder_save_txt obj = Inl (AttributeError ''Autoencoder object has no attribute save_txt'')"

text \<open>\<^verbatim>\<open>path_ + name\<close>: the name is appended to the last component of the path, with no
  separator.\<close>

definition path_plus :: "path \<Rightarrow> string \<Rightarrow> path" where
  "path_plus p name = (if p = [] then [name] else butlast p @ [last p @ name])"

text \<open>Lines 394 to 433. The function has no \<^verbatim>\<open>return\<close> statement: its value, were it
  to finish, is \<^verbatim>\<open>None\<close>.\<close>

definition Autoencoder_train_and_encode :: "'m framework \<Rightarrow> (Autoencoder pstate, unit) prog" where
  "Autoencoder_train_and_encode fw =
     bind_prog get_self (\<lambda>obj.
     bind_prog (pure_call (shape_at (ae_X obj) 1)) (\<lambda>input_dimension.
     bind_prog (in_world (ext_call TrainTestSplit (train_test_split fw (ae_X obj) (ae_X obj))))
       (\<lambda>(X_train, X_test, y_train, y_test).
     bind_prog get_cwd (\<lambda>getcwd.
       (let hp = Autoencoder_set_hard_parameters getcwd;
            autoencoder =
              [Dense (ae_n_neurons obj) (ae_activation obj) None (Some input_dimension),
               Dense (int input_dimension) (ActName (hp_activation_output hp)) None None]
        in bind_prog (in_world (begun_call Fit
                        (keras_fit fw autoencoder hp (X_train, X_train) (X_test, X_test)
                           (ae_batch_size obj) (ae_n_epochs obj)))) (\<lambda>m.
           bind_prog (in_world (\<lambda>w. ext_call (SaveFig (cwd w @ [''loss_history.eps'']))
                                  (plot_history fw m [''loss'', ''val_loss'']) w)) (\<lambda>_.
           bind_prog (in_world (ext_call Predict (encoder_predict fw m (ae_X obj)))) (\<lambda>encoded_X.
           bind_prog (pure_call (Autoencoder_save_txt obj)) (\<lambda>save_txt.
             if save_txt
             then bind_prog (pure_call (py_index (get_weights fw m 0) 0)) (\<lambda>first_layer_weights.
                  bind_prog (pure_call (py_index (get_weights fw m 0) 1)) (\<lambda>first_layer_biases.
                  bind_prog (in_world (ext_call (SaveTxt (path_plus (hp_path hp) ''AEweightsHL1.txt''))
                               (savetxt fw (path_plus (hp_path hp) ''AEweightsHL1.txt'') first_layer_weights))) (\<lambda>_.
                  bind_prog (in_world (ext_call (SaveTxt (path_plus (hp_path hp) ''AEbiasHL1.txt''))
                               (savetxt fw (path_plus (hp_path hp) ''AEbiasHL1.txt'') first_layer_biases))) (\<lambda>_.
                    in_world (ext_call (SaveTxt (path_plus (hp_path hp) ''Encoded_matrix.txt''))
                               (savetxt fw (path_plus (hp_path hp) ''Encoded_matrix.txt'') encoded_X))))))
             else pure_call (Inr ()))))))))))"

definition Autoencoder_fit :: "'m framework \<Rightarrow> (Autoencoder pstate, unit) prog" where
  "Autoencoder_fit fw =
     bind_prog (Autoencoder_prepare (now fw)) (\<lambda>_. Autoencoder_train_and_encode fw)"

section \<open>MLP\_regressor.fit\_network\<close>

definition MLP_regressor_set_hard_parameters :: "path \<Rightarrow> hard_parameters" where
  "MLP_regressor_set_hard_parameters getcwd =
     \<lparr> hp_activation_output = ''linear'', hp_path = getcwd,
       hp_monitor_early_stop = ''mean_squared_error'', hp_optimizer = ''adam'', hp_patience = 5,
       hp_loss = ''mean_squared_error'', hp_metrics = ''mse'' \<rparr>"

definition MLP_regressor_set_environment :: "datetime \<Rightarrow> (world, unit) prog" where
  "MLP_regressor_set_environment t =
     (let newDirName = ''Train MLP regressor - '' @ strftime t
      in bind_prog (os_mkdir newDirName) (\<lambda>_. os_chdir newDirName))"

definition MLP_regressor_write_recap_text ::
  "int \<Rightarrow> int \<Rightarrow> int \<Rightarrow> activation \<Rightarrow> (world, unit) prog" where
  "MLP_regressor_write_recap_text neuro_number lay_number number_batches activation_specification w =
     (let text_file = cwd w @ [''recap_training.txt''];
          written =
            [''The number of neurons in the implemented architecture is equal to: '' @ str_int neuro_number @ '' '',
             ''The number of hidden layers in the implemented architecture is equal to: '' @ str_int lay_number @ '' '',
             ''The batch size is equal to: '' @ str_int number_batches @ '' '']
      in case activation_line activation_specification of
           Inl e \<Rightarrow> (Inl e, emit (WriteText text_file written) w)
         | Inr l \<Rightarrow> (Inr (), emit (WriteText text_file (written @ [l])) w))"

text \<open>Lines 587 to 591: the two shape reads, the new directory and the recap file.\<close>

definition MLP_regressor_prepare :: "datetime \<Rightarrow> (MLP_regressor pstate, nat \<times> nat) prog" where
  "MLP_regressor_prepare t =
     bind_prog get_self (\<lambda>obj.
     bind_prog (pure_call (shape_at (reg_X obj) 1)) (\<lambda>input_dimension.
     bind_prog (pure_call (shape_at (reg_Y obj) 1)) (\<lambda>output_dimension.
     bind_prog (in_world (MLP_regressor_set_environment t)) (\<lambda>_.
     bind_prog (in_world (MLP_regressor_write_recap_text (reg_n_neurons obj) (reg_layers obj)
                            (reg_batch_size obj) (reg_activation obj))) (\<lambda>_.
       pure_call (Inr (input_dimension, output_dimension)))))))"

text \<open>
  Lines 605 to 608. The name \<^verbatim>\<open>Dropout\<close> is local to \<^verbatim>\<open>fit_network\<close>, bound by the
  import statement inside \<^verbatim>\<open>if self._dropout != 0\<close> on line 602. The loop calls it
  without that guard; \<open>bound\<close> says whether the import has run.
\<close>

function MLP_regressor_hidden_loop ::
  "MLP_regressor \<Rightarrow> bool \<Rightarrow> int \<Rightarrow> layer list \<Rightarrow> error + layer list" where
  "MLP_regressor_hidden_loop obj bound counter model =
     (if counter < reg_layers obj
      then (if bound
            then MLP_regressor_hidden_loop obj bound (counter + 1)
                   (model @ [Dense (reg_n_neurons obj) (reg_activation obj) None None,
                             Dropout (reg_dropout obj)])
            else Inl (UnboundLocalError ''local variable Dropout referenced before assignment''))
      else Inr model)"
  by pat_completeness auto
termination
  by (relation "measure (\<lambda>(obj, bound, counter, model). nat (reg_layers obj - counter))") auto

declare MLP_regressor_hidden_loop.simps [simp del]

text \<open>Lines 597 to 609.\<close>

definition MLP_regressor_build ::
  "MLP_regressor \<Rightarrow> nat \<Rightarrow> nat \<Rightarrow> hard_parameters \<Rightarrow> error + layer list" where
  "MLP_regressor_build obj input_dimension output_dimension hp =
     (let bound = float_ne (reg_dropout obj) 0;
          model0 =
            [Dense (reg_n_neurons obj) (reg_activation obj) (Some ''normal'') (Some input_dimension)] @
            (if float_ne (reg_dropout obj) 0 then [Dropout (reg_dropout obj)] else [])
      in case MLP_regressor_hidden_loop obj bound 1 model0 of
           Inl e \<Rightarrow> Inl e
         | Inr model1 \<Rightarrow>
             Inr (model1 @ [Dense (int output_dimension) (ActName (hp_activation_output hp)) None None]))"

text \<open>Lines 630 to 642: the body of the loop starts by reading the name
  \<^verbatim>\<open>classifier\<close>, which \<^verbatim>\<open>fit_network\<close> of the regressor never binds.\<close>

definition MLP_regressor_save_loop :: "int \<Rightarrow> int \<Rightarrow> (world, unit) prog" where
  "MLP_regressor_save_loop n_layers counter_saver =
     (if counter_saver < n_layers
      then pure_call (Inl (NameError ''name classifier is not defined''))
      else pure_call (Inr ()))"

text \<open>Lines 593 to 644.\<close>

definition MLP_regressor_train_and_predict ::
  "'m framework \<Rightarrow> nat \<Rightarrow> nat \<Rightarrow> (MLP_regressor pstate, ndarray) prog" where
  "MLP_regressor_train_and_predict fw input_dimension output_dimension =
     bind_prog get_self (\<lambda>obj.
     bind_prog (in_world (ext_call TrainTestSplit (train_test_split fw (reg_X obj) (reg_Y obj))))
       (\<lambda>(X_train, X_test, y_train, y_test).
     bind_prog get_cwd (\<lambda>getcwd.
       (let hp = MLP_regressor_set_hard_parameters getcwd
        in bind_prog (pure_call (MLP_regressor_build obj input_dimension output_dimension hp)) (\<lambda>model.
           bind_prog (in_world (begun_call Fit
                        (keras_fit fw model hp (X_train, y_train) (X_test, y_test)
                           (reg_batch_size obj) (reg_n_epochs obj)))) (\<lambda>m.
           bind_prog (in_world (\<lambda>w. ext_call (SaveFig (cwd w @ [''loss_history.eps'']))
                                  (plot_history fw m [''loss'', ''val_loss'']) w)) (\<lambda>_.
           bind_prog (in_world (ext_call (LoadWeights (hp_path hp @ [''best_weights2c.h5'']))
                                  (load_weights fw m (hp_path hp @ [''best_weights2c.h5''])))) (\<lambda>m'.
           bind_prog (in_world (ext_call Predict (predict fw m' (reg_X obj)))) (\<lambda>test.
           bind_prog (if reg_save_txt obj
                      then in_world (MLP_regressor_save_loop (reg_layers obj) 0)
                      else pure_call (Inr ())) (\<lambda>_.
             pure_call (Inr test)))))))))))"

definition MLP_regressor_fit_network ::
  "'m framework \<Rightarrow> (MLP_regressor pstate, ndarray) prog" where
  "MLP_regressor_fit_network fw =
     bind_prog (MLP_regressor_prepare (now fw))
       (\<lambda>(input_dimension, output_dimension).
          MLP_regressor_train_and_predict fw input_dimension output_dimension)"

section \<open>Kernel approximation\<close>

text \<open>
  The class \<^verbatim>\<open>Kernel_approximation\<close> that the example script
  \<^verbatim>\<open>examples/model_order_reduction/kernelApproximation.py\<close> calls lives in the module
  \<^verbatim>\<open>model_order_reduction\<close>, which is not among the source files. The definitions of
  this section are therefore written from sections 3 and 4.1 of the specification. Numbers
  are real numbers, that is, arithmetic is exact.
\<close>

text \<open>Modelled from the spec: the data matrix of section 3, an n-by-p table of numbers,
  as the list of its rows; the class \<^verbatim>\<open>Kernel_approximation\<close> that holds it is
  missing.\<close>

type_synonym matrix = "real list list"

text \<open>Modelled from the spec: the recognised options of section 4.1, which the caller
  passes as a mapping of option names to values (lines 15 to 24 of the example script),
  with the optional \<^verbatim>\<open>number_of_matrices\<close> already resolved. The code that reads the
  mapping is missing.\<close>

record settings =
  number_to_pick :: int
  sigma :: real
  rank :: int
  number_of_matrices :: int

text \<open>Modelled from the spec: the descriptive configuration error of section 4.1; the
  exception that the missing class raises is not known.\<close>

datatype kernel_error = ConfigurationError string

text \<open>Modelled from the spec: the routines of the numerical library that section 4.1
  names without defining them, as parameters: the pseudo-inverse, the orthogonal
  factorisation, and the reconstruction of the approximation from the truncated
  factors.\<close>

record linalg =
  pinv :: "matrix \<Rightarrow> matrix"
  qr :: "matrix \<Rightarrow> matrix \<times> matrix"
  reconstruct :: "matrix \<Rightarrow> matrix \<Rightarrow> matrix"

text \<open>Modelled from the spec: the error conditions of section 4.1, for the validation of
  the class \<^verbatim>\<open>Kernel_approximation\<close>, which is missing from the sources:
  \<^verbatim>\<open>number_to_pick > n\<close>, \<^verbatim>\<open>rank > number_to_pick\<close>, or non-positive
  \<^verbatim>\<open>sigma\<close>, \<^verbatim>\<open>rank\<close> or \<^verbatim>\<open>number_to_pick\<close> fail with a descriptive error.\<close>

definition validate_settings :: "nat \<Rightarrow> settings \<Rightarrow> kernel_error + unit" where
  "validate_settings n cfg =
     (if number_to_pick cfg \<le> 0 then Inl (ConfigurationError ''number_to_pick must be positive'')
      else if sigma cfg \<le> 0 then Inl (ConfigurationError ''sigma must be positive'')
      else if rank cfg \<le> 0 then Inl (ConfigurationError ''rank must be positive'')
      else if number_to_pick cfg > int n
      then Inl (ConfigurationError ''number_to_pick exceeds the number of rows'')
      else if rank cfg > number_to_pick cfg
      then Inl (ConfigurationError ''rank exceeds number_to_pick'')
      else Inr ())"

text \<open>Modelled from the spec: the squared distance in the kernel of section 4.1; the
  kernel computation of the missing class.\<close>

definition sqdist :: "real list \<Rightarrow> real list \<Rightarrow> real" where
  "sqdist x y = sum_list (map2 (\<lambda>a b. (a - b) ^ 2) x y)"

text \<open>Modelled from the spec: the radial basis function kernel of section 4.1,
  \<^verbatim>\<open>exp(-|x - y|^2 / (2 sigma^2))\<close>; the kernel computation of the missing class.\<close>

definition rbf :: "real \<Rightarrow> real list \<Rightarrow> real list \<Rightarrow> real" where
  "rbf sg x y = exp (- sqdist x y / (2 * sg ^ 2))"

text \<open>Modelled from the spec: the block of kernel values between the rows of two
  matrices (the sub-block between landmarks, the cross-block between all rows and the
  landmarks); the kernel computation of the missing class.\<close>

definition kernel_block :: "real \<Rightarrow> matrix \<Rightarrow> matrix \<Rightarrow> matrix" where
  "kernel_block sg A B = map (\<lambda>a. map (\<lambda>b. rbf sg a b) B) A"

text \<open>Modelled from the spec: the matrix product of the reconstruction of section 4.1;
  the linear algebra of the missing class.\<close>

definition mat_mul :: "matrix \<Rightarrow> matrix \<Rightarrow> matrix" where
  "mat_mul A B = map (\<lambda>r. map (\<lambda>c. sum_list (map2 (*) r c)) (transpose B)) A"

text \<open>Modelled from the spec: a landmark set is a set of row indices of the data matrix
  (section 3); the rows it selects. The landmark selection of the missing class.\<close>

definition select_rows :: "matrix \<Rightarrow> nat list \<Rightarrow> matrix" where
  "select_rows X idx = map ((!) X) (filter (\<lambda>i. i < length X) idx)"

text \<open>Modelled from the spec: the standard Nystrom reconstruction for one landmark set,
  cross-block times the pseudo-inverse of the sub-block times the transposed cross-block;
  the body of the missing method \<^verbatim>\<open>Nystrom_standard\<close>.\<close>

definition nystrom_approximation :: "linalg \<Rightarrow> matrix \<Rightarrow> real \<Rightarrow> nat list \<Rightarrow> matrix" where
  "nystrom_approximation la X sg idx =
     (let L = select_rows X idx;
          W = kernel_block sg L L;
          C = kernel_block sg X L
      in mat_mul (mat_mul C (pinv la W)) (transpose C))"

text \<open>Modelled from the spec: the combination of the ensemble variant, the simple mean
  of the per-draw approximations, entry by entry of an n-by-n matrix; the combination step
  of the missing method \<^verbatim>\<open>Nystrom_ensemble\<close>.\<close>

definition mat_mean :: "nat \<Rightarrow> matrix list \<Rightarrow> matrix" where
  "mat_mean n Ms =
     map (\<lambda>i. map (\<lambda>j. sum_list (map (\<lambda>M. M ! i ! j) Ms) / real (length Ms)) [0..<n]) [0..<n]"

text \<open>Modelled from the spec: the ensemble variant on given landmark draws, the standard
  procedure once per draw and the mean of the results; the body of the missing method
  \<^verbatim>\<open>Nystrom_ensemble\<close>.\<close>

definition ensemble_of_draws :: "linalg \<Rightarrow> matrix \<Rightarrow> settings \<Rightarrow> nat list list \<Rightarrow> matrix" where
  "ensemble_of_draws la X cfg draws =
     mat_mean (length X) (map (nystrom_approximation la X (sigma cfg)) draws)"

text \<open>
  Modelled from the spec: the operation \<^verbatim>\<open>Nystrom_standard\<close> of section 4.1, missing
  from the sources. The random source is a sequence of landmark draws, \<open>sampler k\<close> being
  the \<open>k\<close>-th; the state that is passed along is the number of draws taken so far. The
  settings are validated first, as section 4.1 requires.
\<close>

definition Nystrom_standard ::
  "linalg \<Rightarrow> (nat \<Rightarrow> nat list) \<Rightarrow> matrix \<Rightarrow> settings \<Rightarrow> nat \<Rightarrow> (kernel_error + matrix) \<times> nat" where
  "Nystrom_standard la sampler X cfg taken =
     (case validate_settings (length X) cfg of
        Inl e \<Rightarrow> (Inl e, taken)
      | Inr _ \<Rightarrow> (Inr (nystrom_approximation la X (sigma cfg) (sampler taken)), taken + 1))"

text \<open>Modelled from the spec: the operation \<^verbatim>\<open>Nystrom_ensemble\<close> of section 4.1,
  missing from the sources: \<^verbatim>\<open>number_of_matrices\<close> independent draws, combined by the
  mean.\<close>

definition Nystrom_ensemble ::
  "linalg \<Rightarrow> (nat \<Rightarrow> nat list) \<Rightarrow> matrix \<Rightarrow> settings \<Rightarrow> nat \<Rightarrow> (kernel_error + matrix) \<times> nat" where
  "Nystrom_ensemble la sampler X cfg taken =
     (case validate_settings (length X) cfg of
        Inl e \<Rightarrow> (Inl e, taken)
      | Inr _ \<Rightarrow>
          (Inr (ensemble_of_draws la X cfg
                  (map sampler [taken..<taken + nat (number_of_matrices cfg)])),
           taken + nat (number_of_matrices cfg)))"

text \<open>Modelled from the spec: the operation \<^verbatim>\<open>QRdecomposition\<close> of section 4.1,
  missing from the sources: one draw, the orthogonal factorisation of the cross-block
  truncated to \<^verbatim>\<open>rank\<close> columns, and the reconstruction from the truncated factors,
  whose formula the specification leaves open.\<close>

definition QRdecomposition ::
  "linalg \<Rightarrow> (nat \<Rightarrow> nat list) \<Rightarrow> matrix \<Rightarrow> settings \<Rightarrow> nat \<Rightarrow> (kernel_error + matrix) \<times> nat" where
  "QRdecomposition la sampler X cfg taken =
     (case validate_settings (length X) cfg of
        Inl e \<Rightarrow> (Inl e, taken)
      | Inr _ \<Rightarrow>
          (let C = kernel_block (sigma cfg) X (select_rows X (sampler taken));
               (Q, R) = qr la C;
               Q_r = map (take (nat (rank cfg))) Q;
               R_r = take (nat (rank cfg)) R
           in (Inr (reconstruct la Q_r R_r), taken + 1)))"

text \<open>A concrete data matrix, settings and library for running the three operations:
  four observations of two variables, the settings of the example script scaled down, and
  stand-ins for the numerical routines.\<close>

definition demo_matrix :: matrix where
  "demo_matrix = [[0, 0], [1, 0], [0, 1], [1, 1]]"

definition demo_settings :: settings where
  "demo_settings = \<lparr> number_to_pick = 2, sigma = 1, rank = 1, number_of_matrices = 2 \<rparr>"

definition demo_linalg :: linalg where
  "demo_linalg = \<lparr> pinv = (\<lambda>W. W), qr = (\<lambda>C. (C, C)), reconstruct = (\<lambda>Q R. mat_mul Q R) \<rparr>"

text \<open>Two random sources that make the same draws in opposite orders.\<close>

definition demo_sampler :: "nat \<Rightarrow> nat list" where
  "demo_sampler k = (if k = 0 then [0, 1] else [2, 3])"

definition demo_sampler_swapped :: "nat \<Rightarrow> nat list" where
  "demo_sampler_swapped k = (if k = 0 then [2, 3] else [0, 1])"

section \<open>A concrete environment\<close>

text \<open>An environment in which every external call succeeds: the trained model is the
  list of layers it was built from, the split hands the data back, and a prediction has one
  row per row of the input. It serves to run the recipes on concrete inputs.\<close>

definition demo_framework :: "(layer list) framework" where
  "demo_framework =
     \<lparr> now = \<lparr> year = 2020, month = 3, day = 9, hour = 14, minute = 5 \<rparr>,
       train_test_split = (\<lambda>X Y. Inr (X, X, Y, Y)),
       keras_fit = (\<lambda>net hp train val batch epochs. Inr net),
       plot_history = (\<lambda>m keys. Inr ()),
       load_weights = (\<lambda>m p. Inr m),
       predict = (\<lambda>m X. Inr \<lparr> shape = [hd (shape X), 1], entries = replicate (hd (shape X)) 0 \<rparr>),
       encoder_predict = (\<lambda>m X. Inr \<lparr> shape = [hd (shape X), 1], entries = replicate (hd (shape X)) 0 \<rparr>),
       get_weights = (\<lambda>m i. []),
       savetxt = (\<lambda>p a. Inr ()) \<rparr>"

text \<open>The same environment, except that the framework's training raises.\<close>

definition demo_framework_failing_fit :: "(layer list) framework" where
  "demo_framework_failing_fit =
     demo_framework\<lparr>keras_fit := (\<lambda>net hp train val batch epochs. Inl (LibraryError ''fit''))\<rparr>"

definition demo_world :: world where
  "demo_world = \<lparr> cwd = [''home''], dirs = [[''home'']], log = [] \<rparr>"

definition demo_X :: ndarray where
  "demo_X = \<lparr> shape = [2, 3], entries = [1, 2, 3, 4, 5, 6] \<rparr>"

definition demo_Y :: ndarray where
  "demo_Y = \<lparr> shape = [2, 2], entries = [1, 0, 0, 1] \<rparr>"

definition demo_idx :: ndarray where
  "demo_idx = \<lparr> shape = [2, 1], entries = [0, 1] \<rparr>"

definition demo_classifier :: MLP_classifier where
  "demo_classifier =
     \<lparr> clf_X = demo_X, clf_Y = demo_Y, clf_activation = ActName ''relu'',
       clf_batch_size = 64, clf_n_epochs = 1000, clf_n_neurons = 2,
       clf_layers = 1, clf_dropout = Finite 0, clf_save_txt = False \<rparr>"

definition demo_autoencoder :: Autoencoder where
  "demo_autoencoder =
     \<lparr> ae_X = demo_X, ae_n_neurons = 1, ae_activation = ActName ''relu'',
       ae_batch_size = 64, ae_n_epochs = 1000 \<rparr>"

definition demo_regressor :: MLP_regressor where
  "demo_regressor =
     \<lparr> reg_X = demo_X, reg_Y = demo_Y, reg_n_neurons = 2, reg_layers = 1,
       reg_activation = ActName ''relu'', reg_batch_size = 64,
       reg_n_epochs = 1000, reg_dropout = Finite 0, reg_save_txt = False \<rparr>"

definition demo_classifier_state :: "MLP_classifier pstate" where
  "demo_classifier_state = \<lparr>self = demo_classifier, os = demo_world\<rparr>"

definition demo_autoencoder_state :: "Autoencoder pstate" where
  "demo_autoencoder_state = \<lparr>self = demo_autoencoder, os = demo_world\<rparr>"

definition demo_regressor_state :: "MLP_regressor pstate" where
  "demo_regressor_state = \<lparr>self = demo_regressor, os = demo_world\<rparr>"

section \<open>Vocabulary of the statements\<close>

text \<open>A setter call \<open>r\<close> made in state \<open>s\<close> raised a validation exception and left the
  world as it was: no directory created, no call into the training framework.\<close>

definition raises_without_effect :: "(error + unit) \<times> 'o pstate \<Rightarrow> 'o pstate \<Rightarrow> bool" where
  "raises_without_effect r s =
     ((case fst r of Inl (Exception msg) \<Rightarrow> True | _ \<Rightarrow> False) \<and> os (snd r) = os s)"

text \<open>An n-by-n matrix: \<open>n\<close> rows of \<open>n\<close> entries each.\<close>

definition is_square :: "nat \<Rightarrow> matrix \<Rightarrow> bool" where
  "is_square n M = (length M = n \<and> list_all (\<lambda>row. length row = n) M)"

text \<open>The effects that a run from world \<open>w\<close> to world \<open>w'\<close> added to the log.\<close>

definition new_events :: "world \<Rightarrow> world \<Rightarrow> event list" where
  "new_events w w' = drop (length (log w)) (log w')"

text \<open>
  A run from world \<open>w\<close> to world \<open>w'\<close> set up its output before it trained: the
  directory named by the prefix and the timestamp did not exist, the run's first three
  effects were its creation, the change of the working directory into it and the writing
  of \<^verbatim>\<open>recap_training.txt\<close> with the lines \<open>recap\<close> inside it, the call of the
  framework's training came after these, and the working directory is still the new one at
  the end.
\<close>

definition prepared_before_training ::
  "string \<Rightarrow> datetime \<Rightarrow> string list \<Rightarrow> world \<Rightarrow> world \<Rightarrow> bool" where
  "prepared_before_training prefix t recap w w' =
     (let d = cwd w @ [prefix @ strftime t]
      in d \<notin> set (dirs w) \<and> d \<in> set (dirs w') \<and> cwd w' = d \<and>
         (case new_events w w' of
            Mkdir a # Chdir b # WriteText f l # rest \<Rightarrow>
              a = d \<and> b = d \<and> f = d @ [''recap_training.txt''] \<and> l = recap \<and>
              Fit \<in> set rest
          | _ \<Rightarrow> False))"

text \<open>A dropout value inside the interval from 0, included, to 1, excluded.\<close>

definition in_unit_interval :: "pyfloat \<Rightarrow> bool" where
  "in_unit_interval d = (float_ge d 0 \<and> float_lt d 1)"

section \<open>Constructors and setters\<close>

lemmas setter_defs =
  MLP_classifier_set_neurons_def MLP_classifier_set_layers_def MLP_classifier_set_batch_size_def
  MLP_classifier_set_n_epochs_def MLP_classifier_set_dropout_def
  Autoencoder_set_neurons_def Autoencoder_set_batch_size_def Autoencoder_set_n_epochs_def
  MLP_regressor_set_neurons_def MLP_regressor_set_layers_def MLP_regressor_set_batch_size_def
  MLP_regressor_set_n_epochs_def MLP_regressor_set_dropout_def

text \<open>
  Claim C1, as amended. Every setter that the recipes define with a check (MLP\_classifier
  and MLP\_regressor: neurons, layers, batch\_size, n\_epochs and dropout; Autoencoder:
  neurons, batch\_size and n\_epochs) raises its validation exception when it is given an
  integer \<open>v \<le> 0\<close>, or, for the dropout, a value \<open>d\<close> with \<open>d < 0\<close> or \<open>d \<ge> 1\<close>. The
  exception is the result of the assignment itself, and the world is as before it: no
  directory has been created and nothing has been logged by the training framework.
\<close>

theorem setters_reject_invalid_values:
  assumes "v \<le> 0" and "float_lt d 0 \<or> float_ge d 1"
  shows "raises_without_effect (MLP_classifier_set_neurons v sc) sc
       \<and> raises_without_effect (MLP_classifier_set_layers v sc) sc
       \<and> raises_without_effect (MLP_classifier_set_batch_size v sc) sc
       \<and> raises_without_effect (MLP_classifier_set_n_epochs v sc) sc
       \<and> raises_without_effect (MLP_classifier_set_dropout d sc) sc
       \<and> raises_without_effect (Autoencoder_set_neurons v sa) sa
       \<and> raises_without_effect (Autoencoder_set_batch_size v sa) sa
       \<and> raises_without_effect (Autoencoder_set_n_epochs v sa) sa
       \<and> raises_without_effect (MLP_regressor_set_neurons v sr) sr
       \<and> raises_without_effect (MLP_regressor_set_layers v sr) sr
       \<and> raises_without_effect (MLP_regressor_set_batch_size v sr) sr
       \<and> raises_without_effect (MLP_regressor_set_n_epochs v sr) sr
       \<and> raises_without_effect (MLP_regressor_set_dropout d sr) sr"
  using assms by (auto simp: raises_without_effect_def setter_defs Let_def)

theorem setters_reject_invalid_values_witness:
  "raises_without_effect
      (MLP_classifier_set_neurons 0 \<lparr>self = demo_classifier, os = demo_world\<rparr>)
      \<lparr>self = demo_classifier, os = demo_world\<rparr>
   \<and> raises_without_effect
      (Autoencoder_set_batch_size (- 3) \<lparr>self = demo_autoencoder, os = demo_world\<rparr>)
      \<lparr>self = demo_autoencoder, os = demo_world\<rparr>
   \<and> raises_without_effect
      (MLP_regressor_set_dropout (Finite 1) \<lparr>self = demo_regressor, os = demo_world\<rparr>)
      \<lparr>self = demo_regressor, os = demo_world\<rparr>
   \<and> raises_without_effect
      (MLP_classifier_set_dropout (Finite (- 1 / 4)) \<lparr>self = demo_classifier, os = demo_world\<rparr>)
      \<lparr>self = demo_classifier, os = demo_world\<rparr>"
proof -
  have a: "(0::int) \<le> 0" and b: "(- 3::int) \<le> 0"
    by simp_all
  have c: "float_lt (Finite 1) 0 \<or> float_ge (Finite 1) 1"
    and d: "float_lt (Finite (- 1 / 4)) 0 \<or> float_ge (Finite (- 1 / 4)) 1"
    by simp_all
  from setters_reject_invalid_values [OF a c, of "\<lparr>self = demo_classifier, os = demo_world\<rparr>"
      "\<lparr>self = demo_autoencoder, os = demo_world\<rparr>" "\<lparr>self = demo_regressor, os = demo_world\<rparr>"]
    setters_reject_invalid_values [OF b d, of "\<lparr>self = demo_classifier, os = demo_world\<rparr>"
      "\<lparr>self = demo_autoencoder, os = demo_world\<rparr>" "\<lparr>self = demo_regressor, os = demo_world\<rparr>"]
  show ?thesis by blast
qed

text \<open>
  Claim C1 as it was stated fails for a dropout that is outside the interval and yet passes
  both comparisons of the setter: NaN is not in [0, 1), and the dropout setters of the
  classifier and of the regressor store it and raise nothing.
\<close>

theorem dropout_setter_accepts_nan_counterexample:
  "\<not> in_unit_interval NaN
   \<and> fst (MLP_classifier_set_dropout NaN demo_classifier_state) = Inr ()
   \<and> clf_dropout (self (snd (MLP_classifier_set_dropout NaN demo_classifier_state))) = NaN
   \<and> \<not> raises_without_effect (MLP_classifier_set_dropout NaN demo_classifier_state)
         demo_classifier_state
   \<and> fst (MLP_regressor_set_dropout NaN demo_regressor_state) = Inr ()
   \<and> reg_dropout (self (snd (MLP_regressor_set_dropout NaN demo_regressor_state))) = NaN
   \<and> \<not> raises_without_effect (MLP_regressor_set_dropout NaN demo_regressor_state)
         demo_regressor_state"
  by (simp add: in_unit_interval_def raises_without_effect_def setter_defs Let_def)

text \<open>The hypothesis on the dropout in the amended claim is being outside the interval and
  not NaN.\<close>

lemma dropout_rejected_iff:
  "(float_lt d 0 \<or> float_ge d 1) = (\<not> in_unit_interval d \<and> d \<noteq> NaN)"
  by (cases d) (auto simp: in_unit_interval_def)

lemma dropout_setters_store_nan:
  "fst (MLP_classifier_set_dropout NaN sc) = Inr ()
   \<and> fst (MLP_regressor_set_dropout NaN sr) = Inr ()"
  by (simp add: setter_defs Let_def)

text \<open>An assignment to \<^verbatim>\<open>layers\<close> or \<^verbatim>\<open>dropout\<close> of an Autoencoder meets no setter:
  no value is rejected.\<close>

lemma autoencoder_layers_and_dropout_unchecked:
  "Autoencoder_assign_layers v sa = (Inr (), sa)
   \<and> Autoencoder_assign_dropout d sa = (Inr (), sa)"
  by (simp add: Autoencoder_assign_layers_def Autoencoder_assign_dropout_def)

text \<open>
  Claim C6. When the numbers of rows of \<open>X\<close> and \<open>Y\<close> differ, the constructors of
  MLP\_classifier and of MLP\_regressor raise the exception about the number of
  observations: no object is returned on which training could be started, and the world is
  untouched.
\<close>

theorem init_rejects_row_mismatch:
  assumes "shape_at X 0 = Inr n" and "shape_at Y 0 = Inr m" and "n \<noteq> m"
  shows "MLP_classifier_init X Y save w =
           (Inl (Exception ''The number of observations (Input and Output) does not match: please check again your Input/Output. Exiting...''), w)
       \<and> MLP_regressor_init X Y save w =
           (Inl (Exception ''The number of observations (Input and Output) does not match: please check again your Input/Output. Exiting...''), w)"
  using assms by (simp add: MLP_classifier_init_def MLP_regressor_init_def)

theorem init_rejects_row_mismatch_witness:
  "shape_at demo_X 0 = Inr 2
   \<and> shape_at \<lparr>shape = [3, 1], entries = [0, 1, 0]\<rparr> 0 = Inr 3
   \<and> MLP_classifier_init demo_X \<lparr>shape = [3, 1], entries = [0, 1, 0]\<rparr> False demo_world =
       (Inl (Exception ''The number of observations (Input and Output) does not match: please check again your Input/Output. Exiting...''), demo_world)
   \<and> MLP_regressor_init demo_X \<lparr>shape = [3, 1], entries = [0, 1, 0]\<rparr> True demo_world =
       (Inl (Exception ''The number of observations (Input and Output) does not match: please check again your Input/Output. Exiting...''), demo_world)"
proof -
  have x: "shape_at demo_X 0 = Inr 2"
    by (simp add: shape_at_def demo_X_def)
  have y: "shape_at \<lparr>shape = [3, 1], entries = [0, 1, 0]\<rparr> 0 = Inr 3"
    by (simp add: shape_at_def)
  have ne: "(2::nat) \<noteq> 3"
    by simp
  from init_rejects_row_mismatch [OF x y ne, of False demo_world]
    init_rejects_row_mismatch [OF x y ne, of True demo_world] x y
  show ?thesis by simp
qed

text \<open>
  Claim C9. Whenever a setter rejects a value and raises, whatever the reason of the
  rejection, it has stored the value already: after the failed assignment the field of the
  object holds the rejected value, not the value it held before.
\<close>

theorem rejected_value_is_stored:
  "(isl (fst (MLP_classifier_set_neurons v sc)) \<longrightarrow>
        clf_n_neurons (self (snd (MLP_classifier_set_neurons v sc))) = v)
   \<and> (isl (fst (MLP_classifier_set_layers v sc)) \<longrightarrow>
        clf_layers (self (snd (MLP_classifier_set_layers v sc))) = v)
   \<and> (isl (fst (MLP_classifier_set_batch_size v sc)) \<longrightarrow>
        clf_batch_size (self (snd (MLP_classifier_set_batch_size v sc))) = v)
   \<and> (isl (fst (MLP_classifier_set_n_epochs v sc)) \<longrightarrow>
        clf_n_epochs (self (snd (MLP_classifier_set_n_epochs v sc))) = v)
   \<and> (isl (fst (MLP_classifier_set_dropout d sc)) \<longrightarrow>
        clf_dropout (self (snd (MLP_classifier_set_dropout d sc))) = d)
   \<and> (isl (fst (Autoencoder_set_neurons v sa)) \<longrightarrow>
        ae_n_neurons (self (snd (Autoencoder_set_neurons v sa))) = v)
   \<and> (isl (fst (Autoencoder_set_batch_size v sa)) \<longrightarrow>
        ae_batch_size (self (snd (Autoencoder_set_batch_size v sa))) = v)
   \<and> (isl (fst (Autoencoder_set_n_epochs v sa)) \<longrightarrow>
        ae_n_epochs (self (snd (Autoencoder_set_n_epochs v sa))) = v)
   \<and> (isl (fst (MLP_regressor_set_neurons v sr)) \<longrightarrow>
        reg_n_neurons (self (snd (MLP_regressor_set_neurons v sr))) = v)
   \<and> (isl (fst (MLP_regressor_set_layers v sr)) \<longrightarrow>
        reg_layers (self (snd (MLP_regressor_set_layers v sr))) = v)
   \<and> (isl (fst (MLP_regressor_set_batch_size v sr)) \<longrightarrow>
        reg_batch_size (self (snd (MLP_regressor_set_batch_size v sr))) = v)
   \<and> (isl (fst (MLP_regressor_set_n_epochs v sr)) \<longrightarrow>
        reg_n_epochs (self (snd (MLP_regressor_set_n_epochs v sr))) = v)
   \<and> (isl (fst (MLP_regressor_set_dropout d sr)) \<longrightarrow>
        reg_dropout (self (snd (MLP_regressor_set_dropout d sr))) = d)"
  by (auto simp: setter_defs Let_def split: sum.splits if_splits)

theorem rejected_value_is_stored_witness:
  "clf_n_neurons (self demo_classifier_state) = 2
   \<and> isl (fst (MLP_classifier_set_neurons (- 1) demo_classifier_state))
   \<and> clf_n_neurons (self (snd (MLP_classifier_set_neurons (- 1) demo_classifier_state))) = - 1
   \<and> ae_batch_size (self demo_autoencoder_state) = 64
   \<and> isl (fst (Autoencoder_set_batch_size 0 demo_autoencoder_state))
   \<and> ae_batch_size (self (snd (Autoencoder_set_batch_size 0 demo_autoencoder_state))) = 0
   \<and> ae_n_neurons (self demo_autoencoder_state) = 1
   \<and> shape_at (ae_X (self demo_autoencoder_state)) 1 = Inr 3
   \<and> isl (fst (Autoencoder_set_neurons 3 demo_autoencoder_state))
   \<and> ae_n_neurons (self (snd (Autoencoder_set_neurons 3 demo_autoencoder_state))) = 3
   \<and> reg_dropout (self demo_regressor_state) = Finite 0
   \<and> isl (fst (MLP_regressor_set_dropout (Finite 2) demo_regressor_state))
   \<and> reg_dropout (self (snd (MLP_regressor_set_dropout (Finite 2) demo_regressor_state))) = Finite 2"
proof -
  have before: "clf_n_neurons (self demo_classifier_state) = 2"
    "ae_batch_size (self demo_autoencoder_state) = 64"
    "ae_n_neurons (self demo_autoencoder_state) = 1"
    "shape_at (ae_X (self demo_autoencoder_state)) 1 = Inr 3"
    "reg_dropout (self demo_regressor_state) = Finite 0"
    by (simp_all add: demo_classifier_state_def demo_classifier_def demo_autoencoder_state_def
          demo_autoencoder_def demo_regressor_state_def demo_regressor_def demo_X_def shape_at_def)
  have raised: "isl (fst (MLP_classifier_set_neurons (- 1) demo_classifier_state))"
    "isl (fst (Autoencoder_set_batch_size 0 demo_autoencoder_state))"
    "isl (fst (Autoencoder_set_neurons 3 demo_autoencoder_state))"
    "isl (fst (MLP_regressor_set_dropout (Finite 2) demo_regressor_state))"
    by (simp_all add: setter_defs Let_def demo_autoencoder_state_def demo_autoencoder_def
          demo_X_def shape_at_def)
  have stored: "clf_n_neurons (self (snd (MLP_classifier_set_neurons (- 1) demo_classifier_state))) = - 1"
    "reg_dropout (self (snd (MLP_regressor_set_dropout (Finite 2) demo_regressor_state))) = Finite 2"
    using rejected_value_is_stored [of "- 1" demo_classifier_state "Finite 2"
        demo_autoencoder_state demo_regressor_state] raised
    by simp_all
  have stored_batch: "ae_batch_size (self (snd (Autoencoder_set_batch_size 0 demo_autoencoder_state))) = 0"
    using rejected_value_is_stored [of 0 demo_classifier_state "Finite 2"
        demo_autoencoder_state demo_regressor_state] raised
    by simp
  have stored_neurons: "ae_n_neurons (self (snd (Autoencoder_set_neurons 3 demo_autoencoder_state))) = 3"
    using rejected_value_is_stored [of 3 demo_classifier_state "Finite 2"
        demo_autoencoder_state demo_regressor_state] raised
    by simp
  from before raised stored stored_batch stored_neurons
  show ?thesis by simp
qed

section \<open>The fit operations\<close>

lemmas prog_defs =
  bind_prog_def pure_call_def in_world_def ext_call_def begun_call_def emit_def get_self_def get_cwd_def

lemma mkdir_chdir:
  "bind_prog (os_mkdir name) (\<lambda>_. os_chdir name) w =
     (if cwd w @ [name] \<in> set (dirs w) then (Inl (FileExistsError name), w)
      else (Inr (), w\<lparr>cwd := cwd w @ [name], dirs := dirs w @ [cwd w @ [name]],
                      log := log w @ [Mkdir (cwd w @ [name]), Chdir (cwd w @ [name])]\<rparr>))"
  by (simp add: bind_prog_def os_mkdir_def os_chdir_def emit_def)

lemma idx_to_labels_raises:
  assumes "shape_at idx 1 = Inr 1"
  shows "\<exists>e. MLP_classifier_idx_to_labels idx = Inl e"
proof -
  from assms obtain n r rest where "shape idx = n # r # rest"
    by (cases "shape idx"; cases "tl (shape idx)") (auto simp: shape_at_def split: if_splits)
  then show ?thesis
    by (auto simp: MLP_classifier_idx_to_labels_def py_max_def plus_one_def np_zeros_with_dtype_def
          shape_at_def Let_def split: sum.splits max_result.splits)
qed

text \<open>The first stage of each fit: either it raises, having called no training, or it
  leaves exactly three events, the new directory, the change into it and the recap file
  with its lines.\<close>

lemma clf_prepare_cases:
  assumes run: "MLP_classifier_prepare t s = (r, s')"
  defines "d \<equiv> cwd (os s) @ [''Train MLP class - '' @ strftime t]"
  shows "(\<exists>e evs. r = Inl e \<and> log (os s') = log (os s) @ evs \<and> Fit \<notin> set evs) \<or>
         (r = Inr () \<and> self s' = self s \<and> d \<notin> set (dirs (os s)) \<and> dirs (os s') = dirs (os s) @ [d] \<and>
            cwd (os s') = d \<and>
            (\<exists>a. clf_activation (self s) = ActName a \<and>
               log (os s') = log (os s) @ [Mkdir d, Chdir d, WriteText (d @ [''recap_training.txt''])
                 [''The number of neurons in the implemented architecture is equal to: '' @ str_int (clf_n_neurons (self s)) @ '' '',
                  ''The number of hidden layers in the implemented architecture is equal to: '' @ str_int (clf_layers (self s)) @ '' '',
                  ''The batch size is equal to: '' @ str_int (clf_batch_size (self s)) @ '' '',
                  ''The activation function which was used was: '' @ a @ ''. '']]))"
proof -
  define name where "name = ''Train MLP class - '' @ strftime t"
  have d: "d = cwd (os s) @ [name]"
    by (simp add: d_def name_def)
  have lab: "shape_at (clf_Y (self s)) (Suc 0) = Inr (Suc 0) \<Longrightarrow>
      \<exists>e. MLP_classifier_idx_to_labels (clf_Y (self s)) = Inl e"
    using idx_to_labels_raises [of "clf_Y (self s)"] by simp
  have env: "MLP_classifier_set_environment t w =
     (if cwd w @ [name] \<in> set (dirs w) then (Inl (FileExistsError name), w)
      else (Inr (), w\<lparr>cwd := cwd w @ [name], dirs := dirs w @ [cwd w @ [name]],
                      log := log w @ [Mkdir (cwd w @ [name]), Chdir (cwd w @ [name])]\<rparr>))" for w
    unfolding MLP_classifier_set_environment_def Let_def name_def by (rule mkdir_chdir)
  show ?thesis
    using run lab unfolding d
    by (auto simp: MLP_classifier_prepare_def env activation_line_def
          MLP_classifier_write_recap_text_def prog_defs Let_def
        split: sum.splits prod.splits if_splits activation.splits)
qed

lemma ae_prepare_cases:
  assumes run: "Autoencoder_prepare t s = (r, s')"
  defines "d \<equiv> cwd (os s) @ [''Train Autoencoder - '' @ strftime t]"
  shows "(\<exists>e evs. r = Inl e \<and> log (os s') = log (os s) @ evs \<and> Fit \<notin> set evs \<and> Predict \<notin> set evs) \<or>
         (r = Inr () \<and> self s' = self s \<and> d \<notin> set (dirs (os s)) \<and> dirs (os s') = dirs (os s) @ [d] \<and>
            cwd (os s') = d \<and>
            (\<exists>a. ae_activation (self s) = ActName a \<and>
               log (os s') = log (os s) @ [Mkdir d, Chdir d, WriteText (d @ [''recap_training.txt''])
                 [''The number of neurons in the implemented architecture is equal to: '' @ str_int (ae_n_neurons (self s)) @ '' '',
                  ''The batch size is equal to: '' @ str_int (ae_batch_size (self s)) @ '' '',
                  ''The activation function which was used was: '' @ a @ ''. '']]))"
proof -
  define name where "name = ''Train Autoencoder - '' @ strftime t"
  have d: "d = cwd (os s) @ [name]"
    by (simp add: d_def name_def)
  have env: "Autoencoder_set_environment t w =
     (if cwd w @ [name] \<in> set (dirs w) then (Inl (FileExistsError name), w)
      else (Inr (), w\<lparr>cwd := cwd w @ [name], dirs := dirs w @ [cwd w @ [name]],
                      log := log w @ [Mkdir (cwd w @ [name]), Chdir (cwd w @ [name])]\<rparr>))" for w
    unfolding Autoencoder_set_environment_def Let_def name_def by (rule mkdir_chdir)
  show ?thesis
    using run unfolding d
    by (auto simp: Autoencoder_prepare_def env activation_line_def
          Autoencoder_write_recap_text_def prog_defs Let_def
        split: sum.splits prod.splits if_splits activation.splits)
qed

lemma reg_prepare_cases:
  assumes run: "MLP_regressor_prepare t s = (r, s')"
  defines "d \<equiv> cwd (os s) @ [''Train MLP regressor - '' @ strftime t]"
  shows "(\<exists>e evs. r = Inl e \<and> log (os s') = log (os s) @ evs \<and> Fit \<notin> set evs) \<or>
         (\<exists>i k. r = Inr (i, k) \<and> shape_at (reg_X (self s)) 1 = Inr i \<and> shape_at (reg_Y (self s)) 1 = Inr k \<and>
            self s' = self s \<and> d \<notin> set (dirs (os s)) \<and> dirs (os s') = dirs (os s) @ [d] \<and>
            cwd (os s') = d \<and>
            (\<exists>a. reg_activation (self s) = ActName a \<and>
               log (os s') = log (os s) @ [Mkdir d, Chdir d, WriteText (d @ [''recap_training.txt''])
                 [''The number of neurons in the implemented architecture is equal to: '' @ str_int (reg_n_neurons (self s)) @ '' '',
                  ''The number of hidden layers in the implemented architecture is equal to: '' @ str_int (reg_layers (self s)) @ '' '',
                  ''The batch size is equal to: '' @ str_int (reg_batch_size (self s)) @ '' '',
                  ''The activation function which was used was: '' @ a @ ''. '']]))"
proof -
  define name where "name = ''Train MLP regressor - '' @ strftime t"
  have d: "d = cwd (os s) @ [name]"
    by (simp add: d_def name_def)
  have env: "MLP_regressor_set_environment t w =
     (if cwd w @ [name] \<in> set (dirs w) then (Inl (FileExistsError name), w)
      else (Inr (), w\<lparr>cwd := cwd w @ [name], dirs := dirs w @ [cwd w @ [name]],
                      log := log w @ [Mkdir (cwd w @ [name]), Chdir (cwd w @ [name])]\<rparr>))" for w
    unfolding MLP_regressor_set_environment_def Let_def name_def by (rule mkdir_chdir)
  show ?thesis
    using run unfolding d
    by (auto simp: MLP_regressor_prepare_def env activation_line_def
          MLP_regressor_write_recap_text_def prog_defs Let_def
        split: sum.splits prod.splits if_splits activation.splits)
qed

text \<open>The dump loop of the classifier only adds to the log.\<close>

lemma clf_save_loop_frame:
  "MLP_classifier_save_loop fw m net n c w = (r, w') \<Longrightarrow>
     cwd w' = cwd w \<and> dirs w' = dirs w \<and> (\<exists>evs. log w' = log w @ evs)"
proof (induction fw m net n c arbitrary: w r w' rule: MLP_classifier_save_loop.induct)
  case (1 fw m classifier n_layers counter_saver)
  show ?case
  proof (cases "counter_saver < n_layers")
    case False
    with "1.prems" show ?thesis
      by (simp add: MLP_classifier_save_loop.simps [of fw m classifier n_layers counter_saver] pure_call_def)
  next
    case True
    from "1.prems" True show ?thesis
      apply (subst (asm) MLP_classifier_save_loop.simps)
      apply (simp add: prog_defs split: sum.splits prod.splits)
      apply (auto dest!: "1.IH" [OF True])
      done
  qed
qed


text \<open>The second stage of each fit stays in the working directory, creates no directory
  and only adds to the log; a value it returns is the result of the last \<^verbatim>\<open>predict\<close>.\<close>

lemma clf_train_cases:
  assumes "MLP_classifier_train_and_predict fw s = (r, s')"
  shows "self s' = self s \<and> cwd (os s') = cwd (os s) \<and> dirs (os s') = dirs (os s) \<and>
         (\<exists>evs. log (os s') = log (os s) @ evs) \<and>
         (\<forall>test. r = Inr test \<longrightarrow> (\<exists>m. predict fw m (clf_X (self s)) = Inr test))"
  using assms
  by (auto simp: MLP_classifier_train_and_predict_def prog_defs Let_def
      split: sum.splits prod.splits if_splits dest!: clf_save_loop_frame)

lemma ae_train_cases:
  assumes "Autoencoder_train_and_encode fw s = (r, s')"
  shows "self s' = self s \<and> cwd (os s') = cwd (os s) \<and> dirs (os s') = dirs (os s) \<and>
         isl r \<and>
         (\<exists>evs. log (os s') = log (os s) @ evs \<and>
             (Predict \<in> set evs \<longrightarrow> r = Inl (AttributeError ''Autoencoder object has no attribute save_txt'')))"
  using assms
  by (auto simp: Autoencoder_train_and_encode_def Autoencoder_save_txt_def prog_defs Let_def isl_def
      split: sum.splits prod.splits if_splits) metis

lemma reg_train_cases:
  assumes "MLP_regressor_train_and_predict fw i k s = (r, s')"
  shows "self s' = self s \<and> cwd (os s') = cwd (os s) \<and> dirs (os s') = dirs (os s) \<and>
         (\<exists>evs. log (os s') = log (os s) @ evs) \<and>
         (\<forall>test. r = Inr test \<longrightarrow> (\<exists>m. predict fw m (reg_X (self s)) = Inr test))"
  using assms
  by (auto simp: MLP_regressor_train_and_predict_def MLP_regressor_save_loop_def prog_defs Let_def
      split: sum.splits prod.splits if_splits)

text \<open>The two stages together.\<close>

lemma prepared_intro:
  assumes "d = cwd w @ [prefix @ strftime t]" and "d \<notin> set (dirs w)" and "d \<in> set (dirs w')"
    and "cwd w' = d"
    and "log w' = (log w @ [Mkdir d, Chdir d, WriteText (d @ [''recap_training.txt'']) recap]) @ evs"
    and "Fit \<in> set evs"
  shows "prepared_before_training prefix t recap w w'"
  using assms by (simp add: prepared_before_training_def new_events_def Let_def)

lemma fit_failed_generic:
  fixes prepare :: "('o pstate, 'a) prog" and train :: "'a \<Rightarrow> ('o pstate, 'b) prog"
  assumes "prepare s = (Inl e, s1)" and "log (os s1) = log (os s) @ evs" and "Fit \<notin> set evs"
  shows "Fit \<notin> set (new_events (os s) (os (snd (bind_prog prepare train s))))"
  using assms by (simp add: bind_prog_def new_events_def)

lemma fit_prepared_generic:
  fixes prepare :: "('o pstate, 'a) prog" and train :: "'a \<Rightarrow> ('o pstate, 'b) prog"
  assumes prep: "prepare s = (Inr x, s1)"
    and fresh: "d \<notin> set (dirs (os s))"
    and dirs1: "dirs (os s1) = dirs (os s) @ [d]"
    and cwd1: "cwd (os s1) = d"
    and log1: "log (os s1) = log (os s) @ [Mkdir d, Chdir d, WriteText (d @ [''recap_training.txt'']) recap]"
    and train: "\<And>r2 s2. train x s1 = (r2, s2) \<Longrightarrow>
                   cwd (os s2) = cwd (os s1) \<and> dirs (os s2) = dirs (os s1) \<and>
                   (\<exists>evs. log (os s2) = log (os s1) @ evs)"
    and d: "d = cwd (os s) @ [prefix @ strftime t]"
    and fit: "Fit \<in> set (new_events (os s) (os (snd (bind_prog prepare train s))))"
  shows "prepared_before_training prefix t recap (os s) (os (snd (bind_prog prepare train s)))"
proof -
  obtain r2 s2 where t: "train x s1 = (r2, s2)"
    by (cases "train x s1")
  from prep t have run: "snd (bind_prog prepare train s) = s2"
    by (simp add: bind_prog_def)
  from train [OF t] obtain evs where
    fr: "cwd (os s2) = cwd (os s1)" "dirs (os s2) = dirs (os s1)" "log (os s2) = log (os s1) @ evs"
    by blast
  from fit run fr(3) log1 have "Fit \<in> set evs"
    by (simp add: new_events_def)
  then show ?thesis
    unfolding run
    by (intro prepared_intro [where d = d and evs = evs])
       (use d fresh dirs1 cwd1 log1 fr in simp_all)
qed

lemma clf_fit_prepared:
  assumes "Fit \<in> set (new_events (os s) (os (snd (MLP_classifier_fit_network fw s))))"
  shows "\<exists>a. clf_activation (self s) = ActName a \<and>
           prepared_before_training ''Train MLP class - '' (now fw)
             [''The number of neurons in the implemented architecture is equal to: '' @ str_int (clf_n_neurons (self s)) @ '' '',
              ''The number of hidden layers in the implemented architecture is equal to: '' @ str_int (clf_layers (self s)) @ '' '',
              ''The batch size is equal to: '' @ str_int (clf_batch_size (self s)) @ '' '',
              ''The activation function which was used was: '' @ a @ ''. '']
             (os s) (os (snd (MLP_classifier_fit_network fw s)))"
proof -
  obtain r1 s1 where p: "MLP_classifier_prepare (now fw) s = (r1, s1)"
    by (cases "MLP_classifier_prepare (now fw) s")
  have f: "Fit \<in> set (new_events (os s) (os (snd (bind_prog (MLP_classifier_prepare (now fw))
             (\<lambda>_. MLP_classifier_train_and_predict fw) s))))"
    using assms by (simp add: MLP_classifier_fit_network_def)
  have tr: "cwd (os s2) = cwd (os s1) \<and> dirs (os s2) = dirs (os s1) \<and>
          (\<exists>evs. log (os s2) = log (os s1) @ evs)"
    if "(\<lambda>_. MLP_classifier_train_and_predict fw) x s1 = (r2, s2)" for x r2 s2
    using that by (auto dest!: clf_train_cases)
  from clf_prepare_cases [OF p] consider
    (failed) e evs where "r1 = Inl e" "log (os s1) = log (os s) @ evs" "Fit \<notin> set evs"
  | (ok) x a where "r1 = Inr x" "cwd (os s) @ [''Train MLP class - '' @ strftime (now fw)] \<notin> set (dirs (os s))"
      "dirs (os s1) = dirs (os s) @ [cwd (os s) @ [''Train MLP class - '' @ strftime (now fw)]]"
      "cwd (os s1) = cwd (os s) @ [''Train MLP class - '' @ strftime (now fw)]"
      "clf_activation (self s) = ActName a"
      "log (os s1) = log (os s) @
         [Mkdir (cwd (os s) @ [''Train MLP class - '' @ strftime (now fw)]),
          Chdir (cwd (os s) @ [''Train MLP class - '' @ strftime (now fw)]),
          WriteText ((cwd (os s) @ [''Train MLP class - '' @ strftime (now fw)]) @ [''recap_training.txt''])
            [''The number of neurons in the implemented architecture is equal to: '' @ str_int (clf_n_neurons (self s)) @ '' '',
             ''The number of hidden layers in the implemented architecture is equal to: '' @ str_int (clf_layers (self s)) @ '' '',
             ''The batch size is equal to: '' @ str_int (clf_batch_size (self s)) @ '' '',
             ''The activation function which was used was: '' @ a @ ''. '']]"
    by blast
  then show ?thesis
  proof cases
    case failed
    with p f fit_failed_generic [of "MLP_classifier_prepare (now fw)" s e s1 evs "\<lambda>_. MLP_classifier_train_and_predict fw"]
    show ?thesis by simp
  next
    case ok
    from ok(1) p have p': "MLP_classifier_prepare (now fw) s = (Inr x, s1)"
      by simp
    from fit_prepared_generic [where prepare = "MLP_classifier_prepare (now fw)" and train = "\<lambda>_. MLP_classifier_train_and_predict fw"
        and prefix = "''Train MLP class - ''" and t = "now fw", OF p' ok(2) ok(3) ok(4) ok(6) tr refl f] ok(5)
    show ?thesis
      by (auto simp: MLP_classifier_fit_network_def)
  qed
qed

lemma ae_fit_prepared:
  assumes "Fit \<in> set (new_events (os s) (os (snd (Autoencoder_fit fw s))))"
  shows "\<exists>a. ae_activation (self s) = ActName a \<and>
           prepared_before_training ''Train Autoencoder - '' (now fw)
             [''The number of neurons in the implemented architecture is equal to: '' @ str_int (ae_n_neurons (self s)) @ '' '',
              ''The batch size is equal to: '' @ str_int (ae_batch_size (self s)) @ '' '',
              ''The activation function which was used was: '' @ a @ ''. '']
             (os s) (os (snd (Autoencoder_fit fw s)))"
proof -
  obtain r1 s1 where p: "Autoencoder_prepare (now fw) s = (r1, s1)"
    by (cases "Autoencoder_prepare (now fw) s")
  have f: "Fit \<in> set (new_events (os s) (os (snd (bind_prog (Autoencoder_prepare (now fw))
             (\<lambda>_. Autoencoder_train_and_encode fw) s))))"
    using assms by (simp add: Autoencoder_fit_def)
  have tr: "cwd (os s2) = cwd (os s1) \<and> dirs (os s2) = dirs (os s1) \<and>
          (\<exists>evs. log (os s2) = log (os s1) @ evs)"
    if "(\<lambda>_. Autoencoder_train_and_encode fw) x s1 = (r2, s2)" for x r2 s2
    using that by (auto dest!: ae_train_cases)
  from ae_prepare_cases [OF p] consider
    (failed) e evs where "r1 = Inl e" "log (os s1) = log (os s) @ evs" "Fit \<notin> set evs"
  | (ok) x a where "r1 = Inr x" "cwd (os s) @ [''Train Autoencoder - '' @ strftime (now fw)] \<notin> set (dirs (os s))"
      "dirs (os s1) = dirs (os s) @ [cwd (os s) @ [''Train Autoencoder - '' @ strftime (now fw)]]"
      "cwd (os s1) = cwd (os s) @ [''Train Autoencoder - '' @ strftime (now fw)]"
      "ae_activation (self s) = ActName a"
      "log (os s1) = log (os s) @
         [Mkdir (cwd (os s) @ [''Train Autoencoder - '' @ strftime (now fw)]),
          Chdir (cwd (os s) @ [''Train Autoencoder - '' @ strftime (now fw)]),
          WriteText ((cwd (os s) @ [''Train Autoencoder - '' @ strftime (now fw)]) @ [''recap_training.txt''])
            [''The number of neurons in the implemented architecture is equal to: '' @ str_int (ae_n_neurons (self s)) @ '' '',
             ''The batch size is equal to: '' @ str_int (ae_batch_size (self s)) @ '' '',
             ''The activation function which was used was: '' @ a @ ''. '']]"
    by blast
  then show ?thesis
  proof cases
    case failed
    with p f fit_failed_generic [of "Autoencoder_prepare (now fw)" s e s1 evs "\<lambda>_. Autoencoder_train_and_encode fw"]
    show ?thesis by simp
  next
    case ok
    from ok(1) p have p': "Autoencoder_prepare (now fw) s = (Inr x, s1)"
      by simp
    from fit_prepared_generic [where prepare = "Autoencoder_prepare (now fw)" and train = "\<lambda>_. Autoencoder_train_and_encode fw"
        and prefix = "''Train Autoencoder - ''" and t = "now fw", OF p' ok(2) ok(3) ok(4) ok(6) tr refl f] ok(5)
    show ?thesis
      by (auto simp: Autoencoder_fit_def)
  qed
qed

lemma reg_fit_prepared:
  assumes "Fit \<in> set (new_events (os s) (os (snd (MLP_regressor_fit_network fw s))))"
  shows "\<exists>a. reg_activation (self s) = ActName a \<and>
           prepared_before_training ''Train MLP regressor - '' (now fw)
             [''The number of neurons in the implemented architecture is equal to: '' @ str_int (reg_n_neurons (self s)) @ '' '',
              ''The number of hidden layers in the implemented architecture is equal to: '' @ str_int (reg_layers (self s)) @ '' '',
              ''The batch size is equal to: '' @ str_int (reg_batch_size (self s)) @ '' '',
              ''The activation function which was used was: '' @ a @ ''. '']
             (os s) (os (snd (MLP_regressor_fit_network fw s)))"
proof -
  obtain r1 s1 where p: "MLP_regressor_prepare (now fw) s = (r1, s1)"
    by (cases "MLP_regressor_prepare (now fw) s")
  have f: "Fit \<in> set (new_events (os s) (os (snd (bind_prog (MLP_regressor_prepare (now fw))
             (\<lambda>(input_dimension, output_dimension). MLP_regressor_train_and_predict fw input_dimension output_dimension) s))))"
    using assms by (simp add: MLP_regressor_fit_network_def)
  have tr: "cwd (os s2) = cwd (os s1) \<and> dirs (os s2) = dirs (os s1) \<and>
          (\<exists>evs. log (os s2) = log (os s1) @ evs)"
    if "(\<lambda>(input_dimension, output_dimension). MLP_regressor_train_and_predict fw input_dimension output_dimension) x s1 = (r2, s2)" for x r2 s2
    using that by (cases x) (auto dest!: reg_train_cases)
  from reg_prepare_cases [OF p] consider
    (failed) e evs where "r1 = Inl e" "log (os s1) = log (os s) @ evs" "Fit \<notin> set evs"
  | (ok) x a where "r1 = Inr x" "cwd (os s) @ [''Train MLP regressor - '' @ strftime (now fw)] \<notin> set (dirs (os s))"
      "dirs (os s1) = dirs (os s) @ [cwd (os s) @ [''Train MLP regressor - '' @ strftime (now fw)]]"
      "cwd (os s1) = cwd (os s) @ [''Train MLP regressor - '' @ strftime (now fw)]"
      "reg_activation (self s) = ActName a"
      "log (os s1) = log (os s) @
         [Mkdir (cwd (os s) @ [''Train MLP regressor - '' @ strftime (now fw)]),
          Chdir (cwd (os s) @ [''Train MLP regressor - '' @ strftime (now fw)]),
          WriteText ((cwd (os s) @ [''Train MLP regressor - '' @ strftime (now fw)]) @ [''recap_training.txt''])
            [''The number of neurons in the implemented architecture is equal to: '' @ str_int (reg_n_neurons (self s)) @ '' '',
             ''The number of hidden layers in the implemented architecture is equal to: '' @ str_int (reg_layers (self s)) @ '' '',
             ''The batch size is equal to: '' @ str_int (reg_batch_size (self s)) @ '' '',
             ''The activation function which was used was: '' @ a @ ''. '']]"
    by blast
  then show ?thesis
  proof cases
    case failed
    with p f fit_failed_generic [of "MLP_regressor_prepare (now fw)" s e s1 evs "\<lambda>(input_dimension, output_dimension). MLP_regressor_train_and_predict fw input_dimension output_dimension"]
    show ?thesis by simp
  next
    case ok
    from ok(1) p have p': "MLP_regressor_prepare (now fw) s = (Inr x, s1)"
      by simp
    from fit_prepared_generic [where prepare = "MLP_regressor_prepare (now fw)" and train = "\<lambda>(input_dimension, output_dimension). MLP_regressor_train_and_predict fw input_dimension output_dimension"
        and prefix = "''Train MLP regressor - ''" and t = "now fw", OF p' ok(2) ok(3) ok(4) ok(6) tr refl f] ok(5)
    show ?thesis
      by (auto simp: MLP_regressor_fit_network_def)
  qed
qed

text \<open>
  Claim C8. In each of the three recipes, a run of the fit operation in which the
  framework's training is called, whether the training then returns or raises, has set up
  its output first: its first three effects are the creation of a directory that did not
  exist, named by the recipe's prefix followed by the timestamp, the change of the
  process's working directory into it, and the writing of \<^verbatim>\<open>recap_training.txt\<close> inside
  it, one line for each hyperparameter with its value (the number of neurons, the number of
  hidden layers except for the Autoencoder, the batch size, the activation); the training
  call comes after them, and the working directory remains the new directory.
\<close>

theorem fit_sets_up_output_before_training:
  "(Fit \<in> set (new_events (os sc) (os (snd (MLP_classifier_fit_network fw sc)))) \<longrightarrow>
      (\<exists>a. clf_activation (self sc) = ActName a \<and>
         prepared_before_training ''Train MLP class - '' (now fw)
           [''The number of neurons in the implemented architecture is equal to: '' @ str_int (clf_n_neurons (self sc)) @ '' '',
            ''The number of hidden layers in the implemented architecture is equal to: '' @ str_int (clf_layers (self sc)) @ '' '',
            ''The batch size is equal to: '' @ str_int (clf_batch_size (self sc)) @ '' '',
            ''The activation function which was used was: '' @ a @ ''. '']
           (os sc) (os (snd (MLP_classifier_fit_network fw sc)))))
   \<and> (Fit \<in> set (new_events (os sa) (os (snd (Autoencoder_fit fw sa)))) \<longrightarrow>
      (\<exists>a. ae_activation (self sa) = ActName a \<and>
         prepared_before_training ''Train Autoencoder - '' (now fw)
           [''The number of neurons in the implemented architecture is equal to: '' @ str_int (ae_n_neurons (self sa)) @ '' '',
            ''The batch size is equal to: '' @ str_int (ae_batch_size (self sa)) @ '' '',
            ''The activation function which was used was: '' @ a @ ''. '']
           (os sa) (os (snd (Autoencoder_fit fw sa)))))
   \<and> (Fit \<in> set (new_events (os sr) (os (snd (MLP_regressor_fit_network fw sr)))) \<longrightarrow>
      (\<exists>a. reg_activation (self sr) = ActName a \<and>
         prepared_before_training ''Train MLP regressor - '' (now fw)
           [''The number of neurons in the implemented architecture is equal to: '' @ str_int (reg_n_neurons (self sr)) @ '' '',
            ''The number of hidden layers in the implemented architecture is equal to: '' @ str_int (reg_layers (self sr)) @ '' '',
            ''The batch size is equal to: '' @ str_int (reg_batch_size (self sr)) @ '' '',
            ''The activation function which was used was: '' @ a @ ''. '']
           (os sr) (os (snd (MLP_regressor_fit_network fw sr)))))"
  using clf_fit_prepared [of sc fw] ae_fit_prepared [of sa fw] reg_fit_prepared [of sr fw] by blast

theorem fit_sets_up_output_before_training_witness:
  "(Fit \<in> set (new_events (os demo_classifier_state) (os (snd (MLP_classifier_fit_network demo_framework demo_classifier_state))))
   \<and> prepared_before_training ''Train MLP class - '' (now demo_framework)
        [''The number of neurons in the implemented architecture is equal to: '' @ str_int (clf_n_neurons (self demo_classifier_state)) @ '' '',
         ''The number of hidden layers in the implemented architecture is equal to: '' @ str_int (clf_layers (self demo_classifier_state)) @ '' '',
         ''The batch size is equal to: '' @ str_int (clf_batch_size (self demo_classifier_state)) @ '' '',
         ''The activation function which was used was: '' @ ''relu'' @ ''. '']
        (os demo_classifier_state) (os (snd (MLP_classifier_fit_network demo_framework demo_classifier_state)))
   \<and> Fit \<in> set (new_events (os demo_autoencoder_state) (os (snd (Autoencoder_fit demo_framework demo_autoencoder_state))))
   \<and> prepared_before_training ''Train Autoencoder - '' (now demo_framework)
        [''The number of neurons in the implemented architecture is equal to: '' @ str_int (ae_n_neurons (self demo_autoencoder_state)) @ '' '',
         ''The batch size is equal to: '' @ str_int (ae_batch_size (self demo_autoencoder_state)) @ '' '',
         ''The activation function which was used was: '' @ ''relu'' @ ''. '']
        (os demo_autoencoder_state) (os (snd (Autoencoder_fit demo_framework demo_autoencoder_state)))
   \<and> Fit \<in> set (new_events (os demo_regressor_state) (os (snd (MLP_regressor_fit_network demo_framework demo_regressor_state))))
   \<and> prepared_before_training ''Train MLP regressor - '' (now demo_framework)
        [''The number of neurons in the implemented architecture is equal to: '' @ str_int (reg_n_neurons (self demo_regressor_state)) @ '' '',
         ''The number of hidden layers in the implemented architecture is equal to: '' @ str_int (reg_layers (self demo_regressor_state)) @ '' '',
         ''The batch size is equal to: '' @ str_int (reg_batch_size (self demo_regressor_state)) @ '' '',
         ''The activation function which was used was: '' @ ''relu'' @ ''. '']
        (os demo_regressor_state) (os (snd (MLP_regressor_fit_network demo_framework demo_regressor_state))))
   \<and> fst (MLP_regressor_fit_network demo_framework_failing_fit demo_regressor_state) =
        Inl (LibraryError ''fit'')
   \<and> Fit \<in> set (new_events (os demo_regressor_state)
        (os (snd (MLP_regressor_fit_network demo_framework_failing_fit demo_regressor_state))))
   \<and> prepared_before_training ''Train MLP regressor - '' (now demo_framework)
        [''The number of neurons in the implemented architecture is equal to: '' @ str_int (reg_n_neurons (self demo_regressor_state)) @ '' '',
         ''The number of hidden layers in the implemented architecture is equal to: '' @ str_int (reg_layers (self demo_regressor_state)) @ '' '',
         ''The batch size is equal to: '' @ str_int (reg_batch_size (self demo_regressor_state)) @ '' '',
         ''The activation function which was used was: '' @ ''relu'' @ ''. '']
        (os demo_regressor_state) (os (snd (MLP_regressor_fit_network demo_framework_failing_fit demo_regressor_state)))"
  (is "?succeeded \<and> _ \<and> _ \<and> ?failed")
proof -
  have a: "Fit \<in> set (new_events (os demo_classifier_state)
      (os (snd (MLP_classifier_fit_network demo_framework demo_classifier_state))))"
    by code_simp
  have b: "Fit \<in> set (new_events (os demo_autoencoder_state)
      (os (snd (Autoencoder_fit demo_framework demo_autoencoder_state))))"
    by code_simp
  have c: "Fit \<in> set (new_events (os demo_regressor_state)
      (os (snd (MLP_regressor_fit_network demo_framework demo_regressor_state))))"
    by code_simp
  have act: "clf_activation (self demo_classifier_state) = ActName ''relu''"
    "ae_activation (self demo_autoencoder_state) = ActName ''relu''"
    "reg_activation (self demo_regressor_state) = ActName ''relu''"
    by (simp_all add: demo_classifier_state_def demo_classifier_def demo_autoencoder_state_def
          demo_autoencoder_def demo_regressor_state_def demo_regressor_def)
  have raised: "fst (MLP_regressor_fit_network demo_framework_failing_fit demo_regressor_state) =
      Inl (LibraryError ''fit'')"
    by code_simp
  have begun: "Fit \<in> set (new_events (os demo_regressor_state)
      (os (snd (MLP_regressor_fit_network demo_framework_failing_fit demo_regressor_state))))"
    by code_simp
  have clock: "now demo_framework_failing_fit = now demo_framework"
    by (simp add: demo_framework_failing_fit_def)
  from fit_sets_up_output_before_training [of demo_classifier_state demo_framework
      demo_autoencoder_state demo_regressor_state] a b c act
  have succeeded: "?succeeded"
    by auto
  from fit_sets_up_output_before_training [of demo_classifier_state demo_framework_failing_fit
      demo_autoencoder_state demo_regressor_state] begun act clock
  have "?failed"
    by auto
  with succeeded raised begun show ?thesis
    by blast
qed

text \<open>A fit of the classifier on a single column of labels raises before it has any
  effect: the conversion of the labels always fails on such a column.\<close>

lemma classifier_single_column_labels:
  assumes "shape_at (clf_Y (self s)) 1 = Inr 1"
  shows "\<exists>e. MLP_classifier_fit_network fw s = (Inl e, s)"
proof -
  obtain e where "MLP_classifier_idx_to_labels (clf_Y (self s)) = Inl e"
    using idx_to_labels_raises [OF assms] by blast
  with assms show ?thesis
    by (simp add: MLP_classifier_fit_network_def MLP_classifier_prepare_def bind_prog_def)
qed

lemma classifier_single_column_labels_demo:
  "MLP_classifier_fit_network demo_framework (demo_classifier_state\<lparr>self := demo_classifier\<lparr>clf_Y := demo_idx\<rparr>\<rparr>) =
     (Inl (TypeError ''Cannot interpret the argument as a data type''),
      demo_classifier_state\<lparr>self := demo_classifier\<lparr>clf_Y := demo_idx\<rparr>\<rparr>)"
  by code_simp

text \<open>A fit after the activation \<^verbatim>\<open>'leaky_relu'\<close> was assigned trains nothing either:
  the last line of the recap file cannot be built from the layer object.\<close>

lemma leaky_relu_stops_before_training:
  "Fit \<notin> set (new_events demo_world (os (snd (MLP_regressor_fit_network demo_framework
      (snd (MLP_regressor_set_activation ''leaky_relu'' demo_regressor_state))))))
   \<and> fst (MLP_regressor_fit_network demo_framework
      (snd (MLP_regressor_set_activation ''leaky_relu'' demo_regressor_state))) =
     Inl (TypeError ''can only concatenate str to str'')"
  by code_simp

text \<open>
  Claim C10. \<^verbatim>\<open>Autoencoder.fit\<close> never returns normally, whatever the object and the
  environment: the constructor builds the same object for \<^verbatim>\<open>save=True\<close> and
  \<^verbatim>\<open>save=False\<close>, without the attribute \<^verbatim>\<open>save_txt\<close>, and a run that gets through
  training and the encoder's prediction ends with the AttributeError of the read of
  \<^verbatim>\<open>self.save_txt\<close>.
\<close>

theorem autoencoder_fit_never_returns:
  "isl (fst (Autoencoder_fit fw s))
   \<and> Autoencoder_init X save w = Autoencoder_init X (\<not> save) w
   \<and> (Predict \<in> set (new_events (os s) (os (snd (Autoencoder_fit fw s)))) \<longrightarrow>
        fst (Autoencoder_fit fw s) =
          Inl (AttributeError ''Autoencoder object has no attribute save_txt''))"
proof -
  obtain r1 s1 where p: "Autoencoder_prepare (now fw) s = (r1, s1)"
    by (cases "Autoencoder_prepare (now fw) s")
  obtain r2 s2 where t: "Autoencoder_train_and_encode fw s1 = (r2, s2)"
    by (cases "Autoencoder_train_and_encode fw s1")
  have init: "Autoencoder_init X save w = Autoencoder_init X (\<not> save) w"
    by (simp add: Autoencoder_init_def)
  from ae_prepare_cases [OF p] consider
    (failed) e evs where "r1 = Inl e" "log (os s1) = log (os s) @ evs" "Predict \<notin> set evs"
  | (ok) evs1 where "r1 = Inr ()" "log (os s1) = log (os s) @ evs1" "Predict \<notin> set evs1"
    by fastforce
  then have
    "isl (fst (Autoencoder_fit fw s)) \<and>
     (Predict \<in> set (new_events (os s) (os (snd (Autoencoder_fit fw s)))) \<longrightarrow>
        fst (Autoencoder_fit fw s) =
          Inl (AttributeError ''Autoencoder object has no attribute save_txt''))"
  proof cases
    case failed
    with p show ?thesis
      by (simp add: Autoencoder_fit_def bind_prog_def new_events_def)
  next
    case ok
    from ok(1) p t have run: "Autoencoder_fit fw s = (r2, s2)"
      by (simp add: Autoencoder_fit_def bind_prog_def)
    from ae_train_cases [OF t] obtain evs where
      r2: "isl r2" and log2: "log (os s2) = log (os s1) @ evs"
      and att: "Predict \<in> set evs \<longrightarrow> r2 = Inl (AttributeError ''Autoencoder object has no attribute save_txt'')"
      by blast
    from ok(2) log2 have "new_events (os s) (os s2) = evs1 @ evs"
      by (simp add: new_events_def)
    with r2 att ok(3) show ?thesis
      unfolding run by auto
  qed
  with init show ?thesis
    by blast
qed

theorem autoencoder_fit_never_returns_witness:
  "Predict \<in> set (new_events (os demo_autoencoder_state)
      (os (snd (Autoencoder_fit demo_framework demo_autoencoder_state))))
   \<and> fst (Autoencoder_fit demo_framework demo_autoencoder_state) =
        Inl (AttributeError ''Autoencoder object has no attribute save_txt'')"
proof -
  have a: "Predict \<in> set (new_events (os demo_autoencoder_state)
      (os (snd (Autoencoder_fit demo_framework demo_autoencoder_state))))"
    by code_simp
  from autoencoder_fit_never_returns [of demo_framework demo_autoencoder_state] a
  show ?thesis by blast
qed


text \<open>The two sibling recipes return what \<^verbatim>\<open>predict\<close> gave on the whole of \<open>X\<close>.\<close>

lemma classifier_fit_returns_prediction:
  assumes "fst (MLP_classifier_fit_network fw s) = Inr test"
  shows "\<exists>m. predict fw m (clf_X (self s)) = Inr test"
proof -
  obtain r1 s1 where p: "MLP_classifier_prepare (now fw) s = (r1, s1)"
    by (cases "MLP_classifier_prepare (now fw) s")
  obtain r2 s2 where t: "MLP_classifier_train_and_predict fw s1 = (r2, s2)"
    by (cases "MLP_classifier_train_and_predict fw s1")
  from clf_prepare_cases [OF p] assms p t have "r1 = Inr () \<and> self s1 = self s \<and> r2 = Inr test"
    by (auto simp: MLP_classifier_fit_network_def bind_prog_def)
  with clf_train_cases [OF t] show ?thesis
    by auto
qed

lemma regressor_fit_returns_prediction:
  assumes "fst (MLP_regressor_fit_network fw s) = Inr test"
  shows "\<exists>m. predict fw m (reg_X (self s)) = Inr test"
proof -
  obtain r1 s1 where p: "MLP_regressor_prepare (now fw) s = (r1, s1)"
    by (cases "MLP_regressor_prepare (now fw) s")
  from reg_prepare_cases [OF p] assms p obtain i k where ok: "r1 = Inr (i, k)" "self s1 = self s"
    by (auto simp: MLP_regressor_fit_network_def bind_prog_def)
  obtain r2 s2 where t: "MLP_regressor_train_and_predict fw i k s1 = (r2, s2)"
    by (cases "MLP_regressor_train_and_predict fw i k s1")
  from assms p t ok have "r2 = Inr test"
    by (simp add: MLP_regressor_fit_network_def bind_prog_def)
  with reg_train_cases [OF t] ok show ?thesis
    by auto
qed

text \<open>
  Claim C5, at a concrete input. With an environment in which every external call
  succeeds, \<^verbatim>\<open>fit_network\<close> of the classifier and of the regressor return the prediction
  on \<open>X\<close>, while \<^verbatim>\<open>Autoencoder.fit\<close> trains, computes the encoder's prediction on
  \<open>X\<close>, and then raises AttributeError: it returns nothing.
\<close>

theorem autoencoder_fit_returns_no_predictions:
  "fst (MLP_classifier_fit_network demo_framework demo_classifier_state) = predict demo_framework [] demo_X
   \<and> fst (MLP_regressor_fit_network demo_framework demo_regressor_state) = predict demo_framework [] demo_X
   \<and> fst (Autoencoder_fit demo_framework demo_autoencoder_state) =
        Inl (AttributeError ''Autoencoder object has no attribute save_txt'')
   \<and> new_events demo_world (os (snd (Autoencoder_fit demo_framework demo_autoencoder_state))) =
        [Mkdir [''home'', ''Train Autoencoder - 2020_03_09-1405''],
         Chdir [''home'', ''Train Autoencoder - 2020_03_09-1405''],
         WriteText [''home'', ''Train Autoencoder - 2020_03_09-1405'', ''recap_training.txt'']
           [''The number of neurons in the implemented architecture is equal to: 1 '',
            ''The batch size is equal to: 64 '',
            ''The activation function which was used was: relu. ''],
         TrainTestSplit, Fit,
         SaveFig [''home'', ''Train Autoencoder - 2020_03_09-1405'', ''loss_history.eps''],
         Predict]"
  by code_simp



text \<open>The network that the classifier builds: one hidden block per configured layer, a
  dropout layer after each hidden layer exactly when the dropout is not zero, then the
  output layer.\<close>

lemma classifier_hidden_loop_eq:
  "MLP_classifier_hidden_loop obj counter net =
     net @ concat (replicate (nat (clf_layers obj - counter))
             (Dense (clf_n_neurons obj) (clf_activation obj) None None #
              (if float_ne (clf_dropout obj) 0 then [Dropout (clf_dropout obj)] else [])))"
proof (induction obj counter net rule: MLP_classifier_hidden_loop.induct)
  case (1 obj counter classifier)
  show ?case
  proof (cases "counter < clf_layers obj")
    case False
    then show ?thesis
      by (simp add: MLP_classifier_hidden_loop.simps [of obj counter classifier])
  next
    case True
    then have n: "nat (clf_layers obj - counter) = Suc (nat (clf_layers obj - (counter + 1)))"
      by simp
    have "MLP_classifier_hidden_loop obj counter classifier =
            MLP_classifier_hidden_loop obj (counter + 1)
              (classifier @ [Dense (clf_n_neurons obj) (clf_activation obj) None None] @
                 (if float_ne (clf_dropout obj) 0 then [Dropout (clf_dropout obj)] else []))"
      by (subst MLP_classifier_hidden_loop.simps) (simp only: True if_True)
    also note "1.IH" [OF True]
    finally show ?thesis
      by (simp add: n)
  qed
qed

lemma classifier_build_structure:
  assumes "1 \<le> clf_layers obj"
  shows "MLP_classifier_build obj input_dimension number_of_classes hp =
     (Dense (clf_n_neurons obj) (clf_activation obj) (Some ''random_normal'') (Some input_dimension) #
        (if float_ne (clf_dropout obj) 0 then [Dropout (clf_dropout obj)] else [])) @
     concat (replicate (nat (clf_layers obj - 1))
        (Dense (clf_n_neurons obj) (clf_activation obj) None None #
           (if float_ne (clf_dropout obj) 0 then [Dropout (clf_dropout obj)] else []))) @
     [Dense (int number_of_classes) (ActName (hp_activation_output hp)) (Some ''random_normal'') None]"
  by (simp add: MLP_classifier_build_def classifier_hidden_loop_eq Let_def)

text \<open>The regressor builds the same shape of network when the dropout is not zero. With
  a dropout of zero, its loop raises as soon as a second hidden layer is asked for.\<close>

lemma regressor_hidden_loop_bound:
  "MLP_regressor_hidden_loop obj True counter net =
     Inr (net @ concat (replicate (nat (reg_layers obj - counter))
             [Dense (reg_n_neurons obj) (reg_activation obj) None None, Dropout (reg_dropout obj)]))"
proof (induction obj "True" counter net rule: MLP_regressor_hidden_loop.induct)
  case (1 obj counter model)
  show ?case
  proof (cases "counter < reg_layers obj")
    case False
    then show ?thesis
      by (simp add: MLP_regressor_hidden_loop.simps [of obj True counter model])
  next
    case True
    then have n: "nat (reg_layers obj - counter) = Suc (nat (reg_layers obj - (counter + 1)))"
      by simp
    have "MLP_regressor_hidden_loop obj True counter model =
            MLP_regressor_hidden_loop obj True (counter + 1)
              (model @ [Dense (reg_n_neurons obj) (reg_activation obj) None None,
                        Dropout (reg_dropout obj)])"
      by (subst MLP_regressor_hidden_loop.simps) (simp only: True if_True)
    also note "1.hyps" [OF True]
    finally show ?thesis
      by (simp add: n)
  qed
qed

lemma regressor_hidden_loop_unbound:
  "MLP_regressor_hidden_loop obj False counter net =
     (if counter < reg_layers obj
      then Inl (UnboundLocalError ''local variable Dropout referenced before assignment'')
      else Inr net)"
  by (subst MLP_regressor_hidden_loop.simps) simp

lemma regressor_build_without_dropout:
  assumes "\<not> float_ne (reg_dropout obj) 0" and "1 < reg_layers obj"
  shows "MLP_regressor_build obj input_dimension output_dimension hp =
           Inl (UnboundLocalError ''local variable Dropout referenced before assignment'')"
  using assms by (simp add: MLP_regressor_build_def regressor_hidden_loop_unbound Let_def)

lemma regressor_build_with_dropout:
  assumes "float_ne (reg_dropout obj) 0"
  shows "MLP_regressor_build obj input_dimension output_dimension hp =
     Inr ([Dense (reg_n_neurons obj) (reg_activation obj) (Some ''normal'') (Some input_dimension),
           Dropout (reg_dropout obj)] @
          concat (replicate (nat (reg_layers obj - 1))
            [Dense (reg_n_neurons obj) (reg_activation obj) None None, Dropout (reg_dropout obj)]) @
          [Dense (int output_dimension) (ActName (hp_activation_output hp)) None None])"
  using assms by (simp add: MLP_regressor_build_def regressor_hidden_loop_bound Let_def)

text \<open>
  Claim C7, at a concrete input. A regressor with two layers and the default dropout of
  zero builds no network: \<^verbatim>\<open>fit_network\<close> raises UnboundLocalError in the loop over
  the hidden layers, before the framework's training is called. The classifier with the same
  hyperparameters builds two hidden layers and the output layer.
\<close>

theorem regressor_two_layers_without_dropout:
  "MLP_regressor_build (demo_regressor\<lparr>reg_layers := 2\<rparr>) 3 2 (MLP_regressor_set_hard_parameters []) =
      Inl (UnboundLocalError ''local variable Dropout referenced before assignment'')
   \<and> fst (MLP_regressor_fit_network demo_framework
            (demo_regressor_state\<lparr>self := demo_regressor\<lparr>reg_layers := 2\<rparr>\<rparr>)) =
      Inl (UnboundLocalError ''local variable Dropout referenced before assignment'')
   \<and> Fit \<notin> set (log (os (snd (MLP_regressor_fit_network demo_framework
            (demo_regressor_state\<lparr>self := demo_regressor\<lparr>reg_layers := 2\<rparr>\<rparr>)))))
   \<and> MLP_classifier_build (demo_classifier\<lparr>clf_layers := 2\<rparr>) 3 2 (MLP_classifier_set_hard_parameters []) =
      [Dense 2 (ActName ''relu'') (Some ''random_normal'') (Some 3),
       Dense 2 (ActName ''relu'') None None,
       Dense 2 (ActName ''softmax'') (Some ''random_normal'') None]"
  by code_simp

section \<open>The kernel approximation, as specified\<close>

lemma validate_settings_invalid:
  assumes "number_to_pick cfg > int n \<or> rank cfg > number_to_pick cfg \<or> sigma cfg \<le> 0
           \<or> rank cfg \<le> 0 \<or> number_to_pick cfg \<le> 0"
  shows "\<exists>msg. msg \<noteq> [] \<and> validate_settings n cfg = Inl (ConfigurationError msg)"
  using assms by (auto simp: validate_settings_def)

text \<open>
  Claim C2. With \<^verbatim>\<open>number_to_pick\<close> above the number of rows of the input matrix,
  \<^verbatim>\<open>rank\<close> above \<^verbatim>\<open>number_to_pick\<close>, or a non-positive \<^verbatim>\<open>sigma\<close>,
  \<^verbatim>\<open>rank\<close> or \<^verbatim>\<open>number_to_pick\<close>, each of the three operations, as the
  specification describes them, ends with a configuration error that carries a message.
  The error does not depend on the random source and no landmark draw has been taken.
\<close>

theorem invalid_settings_fail_before_sampling:
  assumes "number_to_pick cfg > int (length X) \<or> rank cfg > number_to_pick cfg \<or> sigma cfg \<le> 0
           \<or> rank cfg \<le> 0 \<or> number_to_pick cfg \<le> 0"
  shows "\<exists>msg. msg \<noteq> [] \<and>
           (\<forall>sampler. Nystrom_standard la sampler X cfg taken = (Inl (ConfigurationError msg), taken)
                   \<and> Nystrom_ensemble la sampler X cfg taken = (Inl (ConfigurationError msg), taken)
                   \<and> QRdecomposition la sampler X cfg taken = (Inl (ConfigurationError msg), taken))"
proof -
  from validate_settings_invalid [OF assms] obtain msg where
    "msg \<noteq> []" and "validate_settings (length X) cfg = Inl (ConfigurationError msg)"
    by blast
  then show ?thesis
    by (intro exI [of _ msg]) (simp add: Nystrom_standard_def Nystrom_ensemble_def QRdecomposition_def)
qed

theorem invalid_settings_fail_before_sampling_witness:
  "number_to_pick (demo_settings\<lparr>number_to_pick := 5\<rparr>) > int (length demo_matrix)
   \<and> (\<exists>msg. msg \<noteq> [] \<and>
         (\<forall>sampler. Nystrom_standard demo_linalg sampler demo_matrix (demo_settings\<lparr>number_to_pick := 5\<rparr>) 0 =
                       (Inl (ConfigurationError msg), 0)
                 \<and> Nystrom_ensemble demo_linalg sampler demo_matrix (demo_settings\<lparr>number_to_pick := 5\<rparr>) 0 =
                       (Inl (ConfigurationError msg), 0)
                 \<and> QRdecomposition demo_linalg sampler demo_matrix (demo_settings\<lparr>number_to_pick := 5\<rparr>) 0 =
                       (Inl (ConfigurationError msg), 0)))"
proof -
  have a: "number_to_pick (demo_settings\<lparr>number_to_pick := 5\<rparr>) > int (length demo_matrix)"
    by (simp add: demo_matrix_def)
  then have "number_to_pick (demo_settings\<lparr>number_to_pick := 5\<rparr>) > int (length demo_matrix)
      \<or> rank (demo_settings\<lparr>number_to_pick := 5\<rparr>) > number_to_pick (demo_settings\<lparr>number_to_pick := 5\<rparr>)
      \<or> sigma (demo_settings\<lparr>number_to_pick := 5\<rparr>) \<le> 0
      \<or> rank (demo_settings\<lparr>number_to_pick := 5\<rparr>) \<le> 0
      \<or> number_to_pick (demo_settings\<lparr>number_to_pick := 5\<rparr>) \<le> 0"
    by blast
  from invalid_settings_fail_before_sampling [OF this, of demo_linalg 0] a
  show ?thesis by blast
qed

text \<open>The simple mean depends on the matrices it combines, not on their order.\<close>

lemma mat_mean_mset:
  assumes "mset Ms = mset Ms'"
  shows "mat_mean n Ms = mat_mean n Ms'"
proof -
  have len: "length Ms = length Ms'"
    using assms by (rule mset_eq_length)
  have "sum_list (map f Ms) = sum_list (map f Ms')" for f :: "matrix \<Rightarrow> real"
  proof -
    have "mset (map f Ms) = mset (map f Ms')"
      using assms by (metis mset_map)
    then have "sum_mset (mset (map f Ms)) = sum_mset (mset (map f Ms'))"
      by simp
    then show ?thesis
      by (simp only: sum_mset_sum_list)
  qed
  with len show ?thesis
    by (simp add: mat_mean_def)
qed

lemma mat_mean_commute: "mat_mean n [A, B] = mat_mean n [B, A]"
  by (rule mat_mean_mset) simp

text \<open>
  Claim C4. The result of the ensemble Nystrom operation, as the specification describes
  it, does not depend on the order of its landmark draws: two random sources whose
  \<^verbatim>\<open>number_of_matrices\<close> draws are the same up to their order give the same result, in
  exact arithmetic.
\<close>

theorem ensemble_invariant_to_draw_order:
  assumes "mset (map sampler [taken..<taken + nat (number_of_matrices cfg)]) =
           mset (map sampler' [taken..<taken + nat (number_of_matrices cfg)])"
  shows "Nystrom_ensemble la sampler X cfg taken = Nystrom_ensemble la sampler' X cfg taken"
proof -
  let ?f = "nystrom_approximation la X (sigma cfg)"
  from assms have "mset (map ?f (map sampler [taken..<taken + nat (number_of_matrices cfg)])) =
      mset (map ?f (map sampler' [taken..<taken + nat (number_of_matrices cfg)]))"
    by (metis mset_map)
  then have "ensemble_of_draws la X cfg (map sampler [taken..<taken + nat (number_of_matrices cfg)]) =
      ensemble_of_draws la X cfg (map sampler' [taken..<taken + nat (number_of_matrices cfg)])"
    unfolding ensemble_of_draws_def by (rule mat_mean_mset)
  then show ?thesis
    by (simp add: Nystrom_ensemble_def split: sum.splits)
qed

theorem ensemble_invariant_to_draw_order_witness:
  "map demo_sampler [0..<0 + nat (number_of_matrices demo_settings)] = [[0, 1], [2, 3]]
   \<and> map demo_sampler_swapped [0..<0 + nat (number_of_matrices demo_settings)] = [[2, 3], [0, 1]]
   \<and> Nystrom_ensemble demo_linalg demo_sampler demo_matrix demo_settings 0 =
       Nystrom_ensemble demo_linalg demo_sampler_swapped demo_matrix demo_settings 0"
proof -
  have a: "map demo_sampler [0..<0 + nat (number_of_matrices demo_settings)] = [[0, 1], [2, 3]]"
    by code_simp
  have b: "map demo_sampler_swapped [0..<0 + nat (number_of_matrices demo_settings)] = [[2, 3], [0, 1]]"
    by code_simp
  have "mset (map demo_sampler [0..<0 + nat (number_of_matrices demo_settings)]) =
        mset (map demo_sampler_swapped [0..<0 + nat (number_of_matrices demo_settings)])"
    unfolding a b by simp
  from ensemble_invariant_to_draw_order [OF this, of demo_linalg demo_matrix] a b
  show ?thesis by blast
qed

text \<open>The two Nystrom operations, as the specification describes them, return square
  matrices of the size of the input whenever the settings are valid and the landmark draw
  holds a row index of the input.\<close>

lemma length_mat_mul: "length (mat_mul A B) = length A"
  by (simp add: mat_mul_def)

lemma row_length_mat_mul: "row \<in> set (mat_mul A B) \<Longrightarrow> length row = length (transpose B)"
  by (auto simp: mat_mul_def)

lemma kernel_block_rect:
  "length (kernel_block sg A B) = length A"
  "i < length A \<Longrightarrow> length (kernel_block sg A B ! i) = length B"
  by (simp_all add: kernel_block_def)

lemma transpose_transpose_length:
  fixes C :: matrix
  assumes rect: "\<And>i. i < length C \<Longrightarrow> length (C ! i) = m" and "0 < m" and "C \<noteq> []"
  shows "length (transpose (transpose C)) = length C"
proof -
  have t: "transpose C = map (\<lambda>i. map (\<lambda>j. C ! j ! i) [0..<length C]) [0..<m]"
    using assms by (intro transpose_rectangle) auto
  have "transpose (transpose C) =
          map (\<lambda>i. map (\<lambda>j. transpose C ! j ! i) [0..<length (transpose C)]) [0..<length C]"
  proof (rule transpose_rectangle)
    show "transpose C = [] \<Longrightarrow> length C = 0"
      using \<open>0 < m\<close> by (simp add: t)
    show "length (transpose C ! i) = length C" if "i < length (transpose C)" for i
      using that by (simp add: t)
  qed
  then show ?thesis
    by simp
qed

lemma nystrom_approximation_square:
  assumes "\<exists>i \<in> set idx. i < length X"
  shows "is_square (length X) (nystrom_approximation la X sg idx)"
proof -
  define L where "L = select_rows X idx"
  define C where "C = kernel_block sg X L"
  from assms have L: "0 < length L"
    by (auto simp: L_def select_rows_def filter_empty_conv)
  from assms have X: "X \<noteq> []"
    by auto
  have "length (transpose (transpose C)) = length C"
  proof (rule transpose_transpose_length)
    show "length (C ! i) = length L" if "i < length C" for i
      using that by (simp add: C_def kernel_block_def)
    show "0 < length L" by (rule L)
    show "C \<noteq> []" using X by (simp add: C_def kernel_block_def)
  qed
  moreover have "length C = length X"
    by (simp add: C_def kernel_block_def)
  ultimately show ?thesis
    by (auto simp: is_square_def nystrom_approximation_def Let_def L_def [symmetric] C_def [symmetric]
          length_mat_mul list_all_iff dest: row_length_mat_mul)
qed

lemma mat_mean_square: "is_square n (mat_mean n Ms)"
  by (simp add: is_square_def mat_mean_def list_all_iff)

lemma nystrom_operations_square:
  assumes "validate_settings (length X) cfg = Inr ()"
    and "\<exists>i \<in> set (sampler taken). i < length X"
  shows "\<exists>M. fst (Nystrom_standard la sampler X cfg taken) = Inr M \<and> is_square (length X) M"
    and "\<exists>M. fst (Nystrom_ensemble la sampler X cfg taken) = Inr M \<and> is_square (length X) M"
  using assms
  by (simp_all add: Nystrom_standard_def Nystrom_ensemble_def nystrom_approximation_square
        ensemble_of_draws_def mat_mean_square)

end
